theory Spec2Isabelle
  imports Main "HOL-Library.Word"
begin

section \<open>Go primitives used by the plugin\<close>

text \<open>
  The plugin is Go code built for a 64-bit platform: \<open>int\<close>, \<open>int64\<close> and
  \<open>time.Duration\<close> (a count of nanoseconds) are 64-bit two's complement integers whose
  arithmetic wraps around.
\<close>

type_synonym go_int = "64 word"
type_synonym duration = "64 word"

definition Millisecond :: duration where
  "Millisecond = 1000000"

text \<open>
  A buffered channel: the queued values (oldest first), the capacity given to \<open>make\<close>, and
  whether \<open>close\<close> has been called. A channel that is only ever closed, such as
  \<open>stopCh\<close>, is a single flag.
\<close>

record 'a chan =
  chan_buf :: "'a list"
  chan_cap :: nat
  chan_closed :: bool

text \<open>
  A \<open>select\<close> without \<open>default\<close>: when no communication can proceed the statement
  blocks (\<open>None\<close>); when one or more can proceed, a single one of them is chosen by the
  runtime. The runtime's uniform pseudo-random choice is the argument \<open>pick\<close>; \<open>ready\<close> lists
  the cases that can proceed, in source order.
\<close>

definition select_case :: "'c list \<Rightarrow> nat \<Rightarrow> 'c option" where
  "select_case ready pick =
     (if ready = [] then None else Some (ready ! (pick mod length ready)))"

text \<open>
  The state of a \<open>context.Context\<close>: its \<open>Done\<close> channel is closed exactly when it is not
  active, and \<open>Err\<close> then tells why.
\<close>

datatype ctx = CtxActive | CtxCanceled | CtxDeadlineExceeded

fun ctx_Err :: "ctx \<Rightarrow> string" where
  "ctx_Err CtxActive = []"
| "ctx_Err CtxCanceled = ''context canceled''"
| "ctx_Err CtxDeadlineExceeded = ''context deadline exceeded''"

section \<open>Configuration (config.go)\<close>

record Config =
  PoolSize :: go_int
  MaxMemoryMB :: go_int
  DefaultTimeout :: go_int

section \<open>The plugin state (plugin.go, metrics.go)\<close>

text \<open>
  An interpreter is known by its identity; a \<open>*otto.Otto\<close> is a pointer that may be
  \<open>nil\<close> (\<open>None\<close>). The Prometheus collectors are kept by what they have recorded: a
  counter vector as a count per label value, a histogram as the list of its observations,
  a gauge as its value (the gauges only ever move by whole steps).
\<close>

type_synonym vm = nat

record Plugin =
  cfg :: Config
  vmPool :: "vm option chan"
  vmPoolSize :: nat
  stopCh :: bool
  wg :: int
  executionsTotal :: "string \<Rightarrow> nat"
  executionDuration :: "(string \<times> int) list"
  poolSizeGauge :: int
  poolAvailable :: int
  activeExecutions :: int
  codeSize :: "nat list"

text \<open>
  \<open>initMetrics\<close> creates the collectors empty and sets both pool gauges to the configured
  pool size.
\<close>

definition initMetrics :: "Plugin \<Rightarrow> Plugin" where
  "initMetrics p = p\<lparr>executionsTotal := (\<lambda>_. 0), executionDuration := [],
     poolSizeGauge := sint (PoolSize (cfg p)), poolAvailable := sint (PoolSize (cfg p)),
     activeExecutions := 0, codeSize := []\<rparr>"

text \<open>
  \<open>Serve\<close> makes the pool channel with capacity \<open>PoolSize\<close> and fills it with that many
  fresh interpreters; \<open>make\<close> panics on a negative size (\<open>None\<close>).
\<close>

definition Serve :: "Plugin \<Rightarrow> Plugin option" where
  "Serve p =
     (if PoolSize (cfg p) <s 0 then None
      else let n = nat (sint (PoolSize (cfg p)))
           in Some (p\<lparr>vmPoolSize := n,
                      vmPool := \<lparr>chan_buf = map Some [0..<n], chan_cap = n, chan_closed = False\<rparr>,
                      stopCh := False\<rparr>))"

text \<open>
  \<open>Stop\<close> in its two effects on the state: first \<open>close(p.stopCh)\<close>, then, once the wait
  group has drained or the caller's context has expired, \<open>close(p.vmPool)\<close>. Closing a
  channel that is already closed panics (\<open>None\<close>); between the two steps \<open>Stop\<close> waits.
\<close>

definition Stop_signal :: "Plugin \<Rightarrow> Plugin option" where
  "Stop_signal p = (if stopCh p then None else Some (p\<lparr>stopCh := True\<rparr>))"

definition Stop_close :: "Plugin \<Rightarrow> Plugin option" where
  "Stop_close p =
     (if chan_closed (vmPool p) then None
      else Some (p\<lparr>vmPool := (vmPool p)\<lparr>chan_closed := True\<rparr>\<rparr>))"

datatype stop_result = StopReturned Plugin | StopPanicked | StopWaiting Plugin

definition Stop :: "Plugin \<Rightarrow> ctx \<Rightarrow> stop_result" where
  "Stop p c =
     (case Stop_signal p of
        None \<Rightarrow> StopPanicked
      | Some p1 \<Rightarrow>
          if wg p1 = 0 \<or> c \<noteq> CtxActive
          then (case Stop_close p1 of None \<Rightarrow> StopPanicked | Some p2 \<Rightarrow> StopReturned p2)
          else StopWaiting p1)"

section \<open>Pool Manager: acquireVM and releaseVM\<close>

datatype acquire_case = RecvPool | CtxDone | StopClosed

datatype acquire_result = Acquired "vm option" Plugin | AcquireFailed string | AcquireBlocked

text \<open>
  The three cases of the \<open>select\<close> in \<open>acquireVM\<close>. A receive can proceed when the
  buffer holds a value or the channel is closed; a receive from a closed, drained channel
  yields the zero value, a \<open>nil\<close> interpreter, and \<open>acquireVM\<close> returns it with a \<open>nil\<close>
  error.
\<close>

definition acquire_ready :: "Plugin \<Rightarrow> ctx \<Rightarrow> acquire_case list" where
  "acquire_ready p c =
     (if chan_buf (vmPool p) \<noteq> [] \<or> chan_closed (vmPool p) then [RecvPool] else []) @
     (if c \<noteq> CtxActive then [CtxDone] else []) @
     (if stopCh p then [StopClosed] else [])"

definition acquireVM :: "Plugin \<Rightarrow> ctx \<Rightarrow> nat \<Rightarrow> acquire_result" where
  "acquireVM p c pick =
     (case select_case (acquire_ready p c) pick of
        None \<Rightarrow> AcquireBlocked
      | Some RecvPool \<Rightarrow>
          (case chan_buf (vmPool p) of
             [] \<Rightarrow> Acquired None p
           | v # vs \<Rightarrow> Acquired v (p\<lparr>vmPool := (vmPool p)\<lparr>chan_buf := vs\<rparr>\<rparr>))
      | Some CtxDone \<Rightarrow> AcquireFailed (ctx_Err c)
      | Some StopClosed \<Rightarrow> AcquireFailed ''plugin is shutting down'')"

datatype release_case = SendPool | StopSeen

datatype release_result = Requeued Plugin | Discarded Plugin | ReleasePanicked | ReleaseBlocked

text \<open>
  The two cases of the \<open>select\<close> in \<open>releaseVM\<close>. A send can proceed when the buffer has
  room; on a closed channel it is chosen like a ready case and then panics.
\<close>

definition release_ready :: "Plugin \<Rightarrow> release_case list" where
  "release_ready p =
     (if length (chan_buf (vmPool p)) < chan_cap (vmPool p) \<or> chan_closed (vmPool p)
      then [SendPool] else []) @
     (if stopCh p then [StopSeen] else [])"

definition releaseVM :: "Plugin \<Rightarrow> vm option \<Rightarrow> nat \<Rightarrow> release_result" where
  "releaseVM p v pick =
     (case select_case (release_ready p) pick of
        None \<Rightarrow> ReleaseBlocked
      | Some SendPool \<Rightarrow>
          if chan_closed (vmPool p) then ReleasePanicked
          else Requeued (p\<lparr>vmPool := (vmPool p)\<lparr>chan_buf := chan_buf (vmPool p) @ [v]\<rparr>\<rparr>)
      | Some StopSeen \<Rightarrow> Discarded p)"

section \<open>Execution Coordinator: execute\<close>

text \<open>
  \<open>execute\<close> starts two goroutines and then waits in a \<open>select\<close>. What the coordinator
  can observe of the script goroutine when that \<open>select\<close> runs is its progress:
  still inside \<open>vm.Run\<close>, or finished after sending on \<open>resultCh\<close> (the value, given by
  what its \<open>Export\<close> yields: an error, or an exported value of type \<open>'r\<close>, \<open>nil\<close> being
  one) or on \<open>errCh\<close> (the error of \<open>vm.Run\<close>, or a recovered panic). A finished
  goroutine no longer touches the interpreter; a running one does.
\<close>

datatype 'r task_state =
    TaskRunning
  | TaskReturned "string + 'r"
  | TaskFailed string
  | TaskPanicked string

text \<open>
  Everything outside the coordinator's own control for one call: the runtime's choice in
  each of the three \<open>select\<close> statements, the script goroutine's progress and whether
  the timer of \<open>execCtx\<close> has fired when the outcome \<open>select\<close> runs, the two clock
  readings, and how \<open>%v\<close> prints a duration. The watchdog goroutine acts on the
  interpreter only: the interrupt it queues makes a running script panic, which shows as
  the script goroutine's progress.
\<close>

record 'r env =
  pick_acquire :: nat
  task :: "'r task_state"
  timer_fired :: bool
  pick_outcome :: nat
  pick_release :: nat
  elapsed :: int
  rpc_elapsed_ms :: "64 word"
  fmt_duration :: "duration \<Rightarrow> string"

text \<open>
  \<open>vm.Run\<close> on a \<open>nil\<close> interpreter dereferences it: the goroutine panics at once, the
  deferred \<open>recover\<close> turns that into an error on \<open>errCh\<close>.
\<close>

definition nil_dereference :: string where
  "nil_dereference = ''runtime error: invalid memory address or nil pointer dereference''"

definition run_task :: "vm option \<Rightarrow> 'r task_state \<Rightarrow> 'r task_state" where
  "run_task v t =
     (case v of
        Some _ \<Rightarrow> t
      | None \<Rightarrow> (case t of TaskRunning \<Rightarrow> TaskRunning | _ \<Rightarrow> TaskPanicked nil_dereference))"

text \<open>
  \<open>context.WithTimeout(ctx, timeout)\<close>: the derived context is done when its parent is,
  when the timeout is not positive (the deadline has already passed), or when its timer
  has fired.
\<close>

definition execCtx_done :: "ctx \<Rightarrow> duration \<Rightarrow> bool \<Rightarrow> bool" where
  "execCtx_done c timeout fired = (c \<noteq> CtxActive \<or> timeout \<le>s 0 \<or> fired)"

text \<open>
  The cases of the outcome \<open>select\<close>, each with what it receives. Both result channels
  have room for one value and the script goroutine sends on exactly one of them as its
  last action. A recovered panic is sent as \<open>"execution panic: %v"\<close>.
\<close>

datatype 'r outcome_case = RecvResult "string + 'r" | RecvErr string | ExecDone

definition outcome_ready :: "'r task_state \<Rightarrow> bool \<Rightarrow> 'r outcome_case list" where
  "outcome_ready t done =
     (case t of
        TaskRunning \<Rightarrow> []
      | TaskReturned x \<Rightarrow> [RecvResult x]
      | TaskFailed err \<Rightarrow> [RecvErr err]
      | TaskPanicked caught \<Rightarrow> [RecvErr (''execution panic: '' @ caught)]) @
     (if done then [ExecDone] else [])"

text \<open>
  The body of the chosen case: the status label it assigns and the pair that \<open>execute\<close>
  returns (\<open>Inl\<close> for the error's message, \<open>Inr\<close> for the exported value).
\<close>

definition outcome_body :: "'r outcome_case \<Rightarrow> string \<Rightarrow> string \<times> (string + 'r)" where
  "outcome_body oc shown =
     (case oc of
        RecvResult (Inl err) \<Rightarrow> (''error'', Inl (''failed to export result: '' @ err))
      | RecvResult (Inr x) \<Rightarrow> (''success'', Inr x)
      | RecvErr err \<Rightarrow> (''error'', Inl (''execution error: '' @ err))
      | ExecDone \<Rightarrow> (''timeout'', Inl (''execution timeout after '' @ shown)))"

text \<open>
  The deferred functions registered before the interpreter is acquired run last, in
  reverse order of registration: \<open>activeExecutions.Dec\<close>, then the closure that observes the
  duration and increments the counter under the current \<open>status\<close>, then \<open>wg.Done\<close>. They
  run on a normal return and while a panic unwinds.
\<close>

definition deferred_metrics :: "string \<Rightarrow> int \<Rightarrow> Plugin \<Rightarrow> Plugin" where
  "deferred_metrics status d p =
     p\<lparr>activeExecutions := activeExecutions p - 1,
       executionDuration := executionDuration p @ [(status, d)],
       executionsTotal := (executionsTotal p)(status := executionsTotal p status + 1),
       wg := wg p - 1\<rparr>"

text \<open>
  What happened to the acquired interpreter, with the script goroutine's progress as last
  observed by the coordinator when it happened.
\<close>

datatype 'r handle_event =
    HandleRequeued "vm option" "'r task_state"
  | HandleDiscarded "vm option" "'r task_state"

datatype 'r exec_result =
    ExecReturned "string + 'r" Plugin "'r handle_event list"
  | ExecPanicked Plugin
  | ExecWaiting Plugin

text \<open>
  The statements of \<open>execute\<close> before the interpreter is acquired: \<open>wg.Add(1)\<close>, the
  code-size observation, \<open>activeExecutions.Inc\<close> and \<open>poolAvailable.Dec\<close>.
\<close>

definition execute_prologue :: "Plugin \<Rightarrow> string \<Rightarrow> Plugin" where
  "execute_prologue p script =
     p\<lparr>wg := wg p + 1,
       codeSize := codeSize p @ [length script],
       activeExecutions := activeExecutions p + 1,
       poolAvailable := poolAvailable p - 1\<rparr>"

text \<open>
  \<open>execute\<close> itself. The deferred closure that releases the interpreter runs on every
  exit after the acquisition and before the metrics closures; when \<open>releaseVM\<close> panics
  inside it, its \<open>poolAvailable.Inc\<close> is skipped and the panic leaves \<open>execute\<close> after the
  remaining deferred functions have run. While a \<open>select\<close> has no ready case the call
  waits.
\<close>

definition execute :: "Plugin \<Rightarrow> ctx \<Rightarrow> string \<Rightarrow> duration \<Rightarrow> 'r env \<Rightarrow> 'r exec_result" where
  "execute p c script timeout e =
     (let p1 = execute_prologue p script
      in case acquireVM p1 c (pick_acquire e) of
           AcquireBlocked \<Rightarrow> ExecWaiting p1
         | AcquireFailed msg \<Rightarrow>
             ExecReturned (Inl (''failed to acquire VM: '' @ msg))
               (deferred_metrics ''error'' (elapsed e)
                  (p1\<lparr>poolAvailable := poolAvailable p1 + 1\<rparr>)) []
         | Acquired v p2 \<Rightarrow>
             (let t = run_task v (task e);
                  done = execCtx_done c timeout (timer_fired e)
              in case select_case (outcome_ready t done) (pick_outcome e) of
                   None \<Rightarrow> ExecWaiting p2
                 | Some oc \<Rightarrow>
                     (let (status, res) = outcome_body oc (fmt_duration e timeout)
                      in case releaseVM p2 v (pick_release e) of
                           ReleaseBlocked \<Rightarrow> ExecWaiting p2
                         | ReleasePanicked \<Rightarrow>
                             ExecPanicked (deferred_metrics status (elapsed e) p2)
                         | Requeued p3 \<Rightarrow>
                             ExecReturned res
                               (deferred_metrics status (elapsed e)
                                  (p3\<lparr>poolAvailable := poolAvailable p3 + 1\<rparr>))
                               [HandleRequeued v t]
                         | Discarded p3 \<Rightarrow>
                             ExecReturned res
                               (deferred_metrics status (elapsed e)
                                  (p3\<lparr>poolAvailable := poolAvailable p3 + 1\<rparr>))
                               [HandleDiscarded v t])))"

section \<open>The RPC surface: Execute (rpc.go)\<close>

record ExecuteRequest =
  Code :: string
  TimeoutMs :: go_int
  RequestID :: string

text \<open>
  The response is the caller's struct, updated in place. \<open>Result\<close> is an interface value:
  the type \<open>'r\<close> of the values a script can export holds \<open>nil\<close> as one of them, which is
  what \<open>undefined\<close> and \<open>null\<close> export to and what the field holds until it is assigned.
\<close>

record 'r ExecuteResponse =
  Result :: "'r"
  DurationMs :: "64 word"
  Error :: string
  RespRequestID :: string

text \<open>Lines 53 to 57 of \<open>Execute\<close>: the timeout handed to \<open>execute\<close>.\<close>

definition Execute_timeout :: "Config \<Rightarrow> ExecuteRequest \<Rightarrow> duration" where
  "Execute_timeout c req =
     (let timeout = DefaultTimeout c * Millisecond
      in if 0 <s TimeoutMs req then TimeoutMs req * Millisecond else timeout)"

text \<open>
  A call returns its error value (\<open>None\<close> for \<open>nil\<close>) with the response and the plugin
  state, or does not return: a panic of \<open>execute\<close> passes through it, and it waits while
  \<open>execute\<close> waits.
\<close>

datatype 'r rpc_result =
    RpcReturned "string option" "'r ExecuteResponse" Plugin "'r handle_event list"
  | RpcPanicked Plugin
  | RpcWaiting Plugin

text \<open>Lines 70 to 91 of \<open>Execute\<close>: what it does with the outcome of \<open>execute\<close>.\<close>

definition Execute_reply ::
  "'r env \<Rightarrow> ExecuteRequest \<Rightarrow> 'r ExecuteResponse \<Rightarrow> 'r exec_result \<Rightarrow> 'r rpc_result" where
  "Execute_reply e req resp r =
     (case r of
        ExecWaiting p' \<Rightarrow> RpcWaiting p'
      | ExecPanicked p' \<Rightarrow> RpcPanicked p'
      | ExecReturned res p' evs \<Rightarrow>
          (let resp1 = resp\<lparr>DurationMs := rpc_elapsed_ms e, RespRequestID := RequestID req\<rparr>
           in case res of
                Inl err \<Rightarrow> RpcReturned None (resp1\<lparr>Error := err\<rparr>) p' evs
              | Inr x \<Rightarrow> RpcReturned None (resp1\<lparr>Result := x\<rparr>) p' evs))"

text \<open>
  \<open>Execute\<close>: the validation of the request, then \<open>execute\<close> under
  \<open>context.Background()\<close>, which is never done. The calls to the logger record nothing
  of the state kept here and are left out.
\<close>

definition Execute ::
  "Plugin \<Rightarrow> 'r env \<Rightarrow> ExecuteRequest \<Rightarrow> 'r ExecuteResponse \<Rightarrow> 'r rpc_result" where
  "Execute p e req resp =
     (if Code req = [] then
        RpcReturned (Some ''code is required'') (resp\<lparr>Error := ''code is required''\<rparr>) p []
      else
        Execute_reply e req resp
          (execute p CtxActive (Code req) (Execute_timeout (cfg p) req) e))"

section \<open>Sandbox bindings: structured logging (bindings.go)\<close>

text \<open>
  The values a script passes to a binding. An object is its own enumerable properties in
  order; reading a property either yields a value or fails (a getter that throws), which
  \<open>Object.Get\<close> reports as an error.
\<close>

datatype js_value =
    JsUndefined
  | JsNull
  | JsBoolean bool
  | JsNumber int
  | JsString string
  | JsObject "(string \<times> (string + js_value)) list"

type_synonym js_object = "(string \<times> (string + js_value)) list"

text \<open>\<open>FunctionCall.Argument\<close> yields \<open>undefined\<close> beyond the arguments given.\<close>

definition Argument :: "js_value list \<Rightarrow> nat \<Rightarrow> js_value" where
  "Argument args i = (if i < length args then args ! i else JsUndefined)"

definition IsObject :: "js_value \<Rightarrow> bool" where
  "IsObject v = (case v of JsObject _ \<Rightarrow> True | _ \<Rightarrow> False)"

text \<open>\<open>Value.Object\<close> is a pointer, \<open>nil\<close> (\<open>None\<close>) for a value that is not an object.\<close>

definition Object :: "js_value \<Rightarrow> js_object option" where
  "Object v = (case v of JsObject props \<Rightarrow> Some props | _ \<Rightarrow> None)"

definition Keys :: "js_object \<Rightarrow> string list" where
  "Keys obj = map fst obj"

definition Get :: "js_object \<Rightarrow> string \<Rightarrow> string + js_value" where
  "Get obj key = (case map_of obj key of None \<Rightarrow> Inr JsUndefined | Some r \<Rightarrow> r)"

text \<open>
  \<open>getMessage\<close>. \<open>Value.String\<close> belongs to the interpreter library and returns a string for
  every value; it is the parameter \<open>to_string\<close>.
\<close>

definition getMessage :: "(js_value \<Rightarrow> string) \<Rightarrow> js_value list \<Rightarrow> string" where
  "getMessage to_string args =
     (if length args = 0 then [] else to_string (Argument args 0))"

text \<open>
  The loop of \<open>getFields\<close>: a key whose \<open>Get\<close> or whose \<open>Export\<close> returns an error is
  skipped, every other key is appended as \<open>zap.Any(key, exported)\<close>. \<open>Value.Export\<close> is the
  parameter \<open>export\<close>, \<open>Inl\<close> for its error.
\<close>

fun getFields_loop ::
  "(js_value \<Rightarrow> string + 'x) \<Rightarrow> js_object \<Rightarrow> string list \<Rightarrow> (string \<times> 'x) list \<Rightarrow> (string \<times> 'x) list" where
  "getFields_loop export obj [] fs = fs"
| "getFields_loop export obj (key # keys) fs =
     (case Get obj key of
        Inl err \<Rightarrow> getFields_loop export obj keys fs
      | Inr v \<Rightarrow>
          (case export v of
             Inl err \<Rightarrow> getFields_loop export obj keys fs
           | Inr exported \<Rightarrow> getFields_loop export obj keys (fs @ [(key, exported)])))"

text \<open>What one pass of that loop contributes for a key: nothing, or one field.\<close>

definition exported_field ::
  "(js_value \<Rightarrow> string + 'x) \<Rightarrow> js_object \<Rightarrow> string \<Rightarrow> (string \<times> 'x) option" where
  "exported_field export obj key =
     (case Get obj key of
        Inl err \<Rightarrow> None
      | Inr v \<Rightarrow> (case export v of Inl err \<Rightarrow> None | Inr exported \<Rightarrow> Some (key, exported)))"

text \<open>
  \<open>getFields\<close>. The result is \<open>Inr\<close> the fields (\<open>nil\<close> and the empty slice are both the
  empty list) or \<open>Inl\<close> a panic: calling \<open>Keys\<close> through a \<open>nil\<close> object pointer would
  dereference it.
\<close>

definition getFields ::
  "(js_value \<Rightarrow> string + 'x) \<Rightarrow> js_value list \<Rightarrow> string + (string \<times> 'x) list" where
  "getFields export args =
     (if length args < 2 then Inr []
      else let fieldsValue = Argument args 1
           in if \<not> IsObject fieldsValue then Inr []
              else (case Object fieldsValue of
                      None \<Rightarrow> Inl nil_dereference
                    | Some fieldsObj \<Rightarrow>
                        Inr (getFields_loop export fieldsObj (Keys fieldsObj) [])))"

text \<open>
  The logger is kept as the list of the calls made to it. Each of the four bindings reads
  the message and the fields, makes one call at its level and returns \<open>undefined\<close>; a
  panic on the way would leave the binding instead.
\<close>

datatype log_level = DebugLevel | InfoLevel | WarnLevel | ErrorLevel

type_synonym 'x logger = "(log_level \<times> string \<times> (string \<times> 'x) list) list"

definition log_at ::
  "log_level \<Rightarrow> (js_value \<Rightarrow> string) \<Rightarrow> (js_value \<Rightarrow> string + 'x) \<Rightarrow> 'x logger \<Rightarrow> js_value list
     \<Rightarrow> string + (js_value \<times> 'x logger)" where
  "log_at level to_string export logger args =
     (let message = getMessage to_string args
      in case getFields export args of
           Inl caught \<Rightarrow> Inl caught
         | Inr fs \<Rightarrow> Inr (JsUndefined, logger @ [(level, message, fs)]))"

definition LogBinding_info ::
  "(js_value \<Rightarrow> string) \<Rightarrow> (js_value \<Rightarrow> string + 'x) \<Rightarrow> 'x logger \<Rightarrow> js_value list
     \<Rightarrow> string + (js_value \<times> 'x logger)" where
  "LogBinding_info = log_at InfoLevel"

definition LogBinding_error ::
  "(js_value \<Rightarrow> string) \<Rightarrow> (js_value \<Rightarrow> string + 'x) \<Rightarrow> 'x logger \<Rightarrow> js_value list
     \<Rightarrow> string + (js_value \<times> 'x logger)" where
  "LogBinding_error = log_at ErrorLevel"

definition LogBinding_warn ::
  "(js_value \<Rightarrow> string) \<Rightarrow> (js_value \<Rightarrow> string + 'x) \<Rightarrow> 'x logger \<Rightarrow> js_value list
     \<Rightarrow> string + (js_value \<times> 'x logger)" where
  "LogBinding_warn = log_at WarnLevel"

definition LogBinding_debug ::
  "(js_value \<Rightarrow> string) \<Rightarrow> (js_value \<Rightarrow> string + 'x) \<Rightarrow> 'x logger \<Rightarrow> js_value list
     \<Rightarrow> string + (js_value \<times> 'x logger)" where
  "LogBinding_debug = log_at DebugLevel"

section \<open>Sandbox bindings: custom metrics\<close>

text \<open>
  A collector is a heap object: two collectors are the same one exactly when their
  identities agree. Next to the identity it carries what its descriptor is made of.
\<close>

datatype collector_kind = CounterVec | GaugeVec | HistogramVec

record collector =
  col_id :: nat
  col_kind :: collector_kind
  col_fqName :: string
  col_help :: string
  col_labelNames :: "string list"

text \<open>
  What \<open>prometheus.Register\<close> can answer: \<open>nil\<close>, an \<open>AlreadyRegisteredError\<close> carrying the
  existing collector, or any other error.
\<close>

datatype register_error = AlreadyRegisteredError collector | OtherError

text \<open>
  The constructors' arguments in \<open>getOrCreateCounter\<close>, \<open>getOrCreateGauge\<close> and
  \<open>getOrCreateHistogram\<close>: namespace \<open>js_user\<close> joined to the name, a help text naming the
  kind, and the keys of the label map as label names.
\<close>

definition BuildFQName :: "string \<Rightarrow> string" where
  "BuildFQName name = (if name = [] then [] else ''js_user_'' @ name)"

fun help_text :: "collector_kind \<Rightarrow> string \<Rightarrow> string" where
  "help_text CounterVec name = ''User-defined counter: '' @ name"
| "help_text GaugeVec name = ''User-defined gauge: '' @ name"
| "help_text HistogramVec name = ''User-defined histogram: '' @ name"

definition new_collector ::
  "collector_kind \<Rightarrow> nat \<Rightarrow> string \<Rightarrow> (string \<times> string) list \<Rightarrow> collector" where
  "new_collector k fresh name labels =
     \<lparr>col_id = fresh, col_kind = k, col_fqName = BuildFQName name,
      col_help = help_text k name, col_labelNames = map fst labels\<rparr>"

text \<open>
  The three functions differ in the kind they create, the kind they accept from an
  \<open>AlreadyRegisteredError\<close> and the map they cache in; \<open>getOrCreate\<close> is their common body.
  The process-wide registry of the Prometheus library is the state \<open>reg\<close> with its
  operation \<open>register\<close>, a parameter; \<open>fresh\<close> is the identity the next allocated
  collector receives. The result is the returned pointer (\<open>None\<close> for \<open>nil\<close>), the cache
  and the process state afterwards. The error logged on failure is left out.
\<close>

definition getOrCreate ::
  "collector_kind \<Rightarrow> ('reg \<Rightarrow> collector \<Rightarrow> register_error option \<times> 'reg) \<Rightarrow>
   (string \<rightharpoonup> collector) \<Rightarrow> 'reg \<times> nat \<Rightarrow> string \<Rightarrow> (string \<times> string) list \<Rightarrow>
   collector option \<times> (string \<rightharpoonup> collector) \<times> ('reg \<times> nat)" where
  "getOrCreate k register cache w name labels =
     (case cache name of
        Some existing \<Rightarrow> (Some existing, cache, w)
      | None \<Rightarrow>
          (let (reg, fresh) = w;
               created = new_collector k fresh name labels;
               (err, reg') = register reg created;
               w' = (reg', Suc fresh)
           in case err of
                None \<Rightarrow> (Some created, cache(name \<mapsto> created), w')
              | Some (AlreadyRegisteredError existing) \<Rightarrow>
                  if col_kind existing = k
                  then (Some existing, cache(name \<mapsto> existing), w')
                  else (None, cache, w')
              | Some OtherError \<Rightarrow> (None, cache, w')))"

record MetricsBinding =
  userCounters :: "string \<rightharpoonup> collector"
  userGauges :: "string \<rightharpoonup> collector"
  userHistograms :: "string \<rightharpoonup> collector"

definition newMetricsBinding :: MetricsBinding where
  "newMetricsBinding =
     \<lparr>userCounters = Map.empty, userGauges = Map.empty, userHistograms = Map.empty\<rparr>"

definition getOrCreateCounter ::
  "('reg \<Rightarrow> collector \<Rightarrow> register_error option \<times> 'reg) \<Rightarrow> MetricsBinding \<Rightarrow> 'reg \<times> nat \<Rightarrow>
   string \<Rightarrow> (string \<times> string) list \<Rightarrow> collector option \<times> MetricsBinding \<times> ('reg \<times> nat)" where
  "getOrCreateCounter register m w name labels =
     (let (r, cache, w') = getOrCreate CounterVec register (userCounters m) w name labels
      in (r, m\<lparr>userCounters := cache\<rparr>, w'))"

definition getOrCreateGauge ::
  "('reg \<Rightarrow> collector \<Rightarrow> register_error option \<times> 'reg) \<Rightarrow> MetricsBinding \<Rightarrow> 'reg \<times> nat \<Rightarrow>
   string \<Rightarrow> (string \<times> string) list \<Rightarrow> collector option \<times> MetricsBinding \<times> ('reg \<times> nat)" where
  "getOrCreateGauge register m w name labels =
     (let (r, cache, w') = getOrCreate GaugeVec register (userGauges m) w name labels
      in (r, m\<lparr>userGauges := cache\<rparr>, w'))"

definition getOrCreateHistogram ::
  "('reg \<Rightarrow> collector \<Rightarrow> register_error option \<times> 'reg) \<Rightarrow> MetricsBinding \<Rightarrow> 'reg \<times> nat \<Rightarrow>
   string \<Rightarrow> (string \<times> string) list \<Rightarrow> collector option \<times> MetricsBinding \<times> ('reg \<times> nat)" where
  "getOrCreateHistogram register m w name labels =
     (let (r, cache, w') = getOrCreate HistogramVec register (userHistograms m) w name labels
      in (r, m\<lparr>userHistograms := cache\<rparr>, w'))"

text \<open>
  The registry of the Prometheus client library (client_golang, the version pinned in
  \<open>go.mod\<close>) is not part of the repository. This is what its \<open>Register\<close> does with the
  single-descriptor collectors created above, the registry being the list of registered
  collectors: a descriptor whose fully-qualified name is already known must have the same
  help text and the same set of label names, otherwise the registration is refused with
  an ordinary error; when they agree the answer is an \<open>AlreadyRegisteredError\<close> with the
  collector registered first. Whether a descriptor is valid at all (the characters of its
  names) is the parameter \<open>valid\<close>.
\<close>

definition prometheus_Register ::
  "(collector \<Rightarrow> bool) \<Rightarrow> collector list \<Rightarrow> collector \<Rightarrow> register_error option \<times> collector list" where
  "prometheus_Register valid reg c =
     (if \<not> valid c then (Some OtherError, reg)
      else case find (\<lambda>x. col_fqName x = col_fqName c) reg of
             None \<Rightarrow> (None, reg @ [c])
           | Some existing \<Rightarrow>
               if col_help existing = col_help c \<and>
                  set (col_labelNames existing) = set (col_labelNames c)
               then (Some (AlreadyRegisteredError existing), reg)
               else (Some OtherError, reg))"

text \<open>
  The later \<open>MetricsBinding\<close> of \<open>bindings.go\<close> registers nothing: \<open>getCollector\<close> looks a
  name up, first in the binding's cache, then in the collectors map of the metrics plugin
  (\<open>None\<close> when the plugin pointer is \<open>nil\<close>), and caches what it finds. The result is the
  pair it returns and the cache afterwards.
\<close>

record metricsCollector =
  col :: collector
  registered :: bool

definition getCollector ::
  "(string \<rightharpoonup> collector) \<Rightarrow> (string \<rightharpoonup> metricsCollector) option \<Rightarrow> string \<Rightarrow>
   (collector option \<times> bool) \<times> (string \<rightharpoonup> collector)" where
  "getCollector cachedCollectors metricsPlugin name =
     (case cachedCollectors name of
        Some cached \<Rightarrow> ((Some cached, True), cachedCollectors)
      | None \<Rightarrow>
          (case metricsPlugin of
             None \<Rightarrow> ((None, False), cachedCollectors)
           | Some collectors \<Rightarrow>
               (case collectors name of
                  None \<Rightarrow> ((None, False), cachedCollectors)
                | Some wrapped \<Rightarrow>
                    ((Some (col wrapped), True), cachedCollectors(name \<mapsto> col wrapped)))))"

section \<open>Concrete states and inputs\<close>

text \<open>
  A plugin configured with one interpreter, as \<open>Init\<close> leaves it; the same after
  \<open>Serve\<close>; with its interpreter checked out by an execution that waits for its script;
  after \<open>Stop\<close> has signalled shutdown during that execution; and after a \<open>Stop\<close> of the
  idle plugin has returned.
\<close>

definition example_cfg :: Config where
  "example_cfg = \<lparr>PoolSize = 1, MaxMemoryMB = 512, DefaultTimeout = 30000\<rparr>"

definition configured :: Plugin where
  "configured =
     \<lparr>cfg = example_cfg, vmPool = \<lparr>chan_buf = [], chan_cap = 0, chan_closed = False\<rparr>,
      vmPoolSize = 0, stopCh = False, wg = 0, executionsTotal = (\<lambda>_. 0),
      executionDuration = [], poolSizeGauge = 1, poolAvailable = 1, activeExecutions = 0,
      codeSize = []\<rparr>"

definition serving :: Plugin where
  "serving =
     configured\<lparr>vmPoolSize := 1,
       vmPool := \<lparr>chan_buf = [Some 0], chan_cap = 1, chan_closed = False\<rparr>\<rparr>"

definition in_flight :: Plugin where
  "in_flight =
     serving\<lparr>wg := 1, codeSize := [9], activeExecutions := 1, poolAvailable := 0,
       vmPool := \<lparr>chan_buf = [], chan_cap = 1, chan_closed = False\<rparr>\<rparr>"

definition draining :: Plugin where
  "draining = in_flight\<lparr>stopCh := True\<rparr>"

definition stopped :: Plugin where
  "stopped =
     serving\<lparr>stopCh := True,
       vmPool := \<lparr>chan_buf = [Some 0], chan_cap = 1, chan_closed = True\<rparr>\<rparr>"

text \<open>The stopped plugin once its buffered interpreter has been taken out.\<close>

definition drained :: Plugin where
  "drained = stopped\<lparr>vmPool := \<lparr>chan_buf = [], chan_cap = 1, chan_closed = True\<rparr>\<rparr>"

text \<open>
  Two runs of the environment for a script that never finishes, \<open>for(;;){}\<close>: one observed
  before the timer of its deadline has fired, one after. Every \<open>select\<close> takes the first
  of its ready cases. Exported values are integers or \<open>nil\<close> (\<open>None\<close>).
\<close>

definition running_env :: "int option env" where
  "running_env =
     \<lparr>pick_acquire = 0, task = TaskRunning, timer_fired = False, pick_outcome = 0,
      pick_release = 0, elapsed = 50000000, rpc_elapsed_ms = 50,
      fmt_duration = (\<lambda>_. ''100ms'')\<rparr>"

definition timeout_env :: "int option env" where
  "timeout_env = running_env\<lparr>timer_fired := True, elapsed := 100000000, rpc_elapsed_ms := 100\<rparr>"

text \<open>A run in which the script goroutine has delivered an outcome before the deadline.\<close>

definition finished_env :: "int option env" where
  "finished_env = running_env\<lparr>task := TaskReturned (Inr (Some 4))\<rparr>"

definition empty_request :: ExecuteRequest where
  "empty_request = \<lparr>Code = [], TimeoutMs = 0, RequestID = ''req-123''\<rparr>"

definition loop_request :: ExecuteRequest where
  "loop_request = \<lparr>Code = ''for(;;){}'', TimeoutMs = 100, RequestID = ''req-124''\<rparr>"

definition huge_timeout_request :: ExecuteRequest where
  "huge_timeout_request = \<lparr>Code = ''1'', TimeoutMs = 9223372036855, RequestID = []\<rparr>"

definition zero_response :: "int option ExecuteResponse" where
  "zero_response = \<lparr>Result = None, DurationMs = 0, Error = [], RespRequestID = []\<rparr>"

text \<open>
  The plugin and the response after the request \<open>loop_request\<close> has run into its
  deadline on the idle plugin.
\<close>

definition timed_out :: Plugin where
  "timed_out =
     serving\<lparr>codeSize := [9], executionDuration := [(''timeout'', 100000000)],
       executionsTotal := (\<lambda>_. 0)(''timeout'' := 1)\<rparr>"

definition timeout_response :: "int option ExecuteResponse" where
  "timeout_response =
     \<lparr>Result = None, DurationMs = 100, Error = ''execution timeout after 100ms'',
      RespRequestID = ''req-124''\<rparr>"

text \<open>The plugin after the script \<open>2+2\<close> has run to its value on the idle plugin.\<close>

definition succeeded :: Plugin where
  "succeeded =
     serving\<lparr>codeSize := [3], executionDuration := [(''success'', 50000000)],
       executionsTotal := (\<lambda>_. 0)(''success'' := 1)\<rparr>"

text \<open>
  The plugin after an execution on the drained pool has panicked in its deferred release.
\<close>

definition crashed :: Plugin where
  "crashed =
     drained\<lparr>codeSize := [3], poolAvailable := 0,
       executionDuration := [(''error'', 50000000)],
       executionsTotal := (\<lambda>_. 0)(''error'' := 1)\<rparr>"

text \<open>
  Two interpreters' bindings that register a counter under one name with different label
  names, against an empty registry that accepts every descriptor as valid.
\<close>

definition accept_all :: "collector \<Rightarrow> bool" where
  "accept_all c = True"

definition hits_by_route :: collector where
  "hits_by_route =
     \<lparr>col_id = 0, col_kind = CounterVec, col_fqName = ''js_user_hits'',
      col_help = ''User-defined counter: hits'', col_labelNames = [''route'']\<rparr>"

text \<open>The collectors map of a metrics plugin in which the counter was declared.\<close>

definition declared :: "string \<rightharpoonup> metricsCollector" where
  "declared = [''hits'' \<mapsto> \<lparr>col = hits_by_route, registered = True\<rparr>]"

text \<open>
  Stand-ins for the two library conversions in concrete calls of the log bindings: one
  that prints strings only, one that exports numbers only and reports an error for every
  other value.
\<close>

definition sample_String :: "js_value \<Rightarrow> string" where
  "sample_String v = (case v of JsString s \<Rightarrow> s | _ \<Rightarrow> [])"

definition sample_Export :: "js_value \<Rightarrow> string + int" where
  "sample_Export v = (case v of JsNumber n \<Rightarrow> Inr n | _ \<Rightarrow> Inl ''no conversion'')"

definition sample_fields :: js_object where
  "sample_fields =
     [(''order_id'', Inr (JsNumber 12345)), (''broken'', Inl ''getter threw''),
      (''customer'', Inr (JsString ''john''))]"

section \<open>Properties of Execute and execute\<close>

subsection \<open>Reachability of the concrete states\<close>

lemma initMetrics_configured: "initMetrics configured = configured"
  by (simp add: initMetrics_def configured_def example_cfg_def)

lemma Serve_configured: "Serve configured = Some serving"
  by (simp add: Serve_def configured_def serving_def example_cfg_def word_sless_alt)

lemma execute_serving_waits:
  "execute serving CtxActive ''for(;;){}'' (100 * Millisecond) running_env = ExecWaiting in_flight"
  by (simp add: execute_def execute_prologue_def acquireVM_def acquire_ready_def
      select_case_def run_task_def execCtx_done_def outcome_ready_def running_env_def
      in_flight_def serving_def configured_def Millisecond_def word_sle_eq)

lemma Stop_in_flight: "Stop in_flight CtxActive = StopWaiting draining"
  by (simp add: Stop_def Stop_signal_def draining_def in_flight_def serving_def
      configured_def)

lemma Stop_serving: "Stop serving CtxActive = StopReturned stopped"
  by (simp add: Stop_def Stop_signal_def Stop_close_def stopped_def serving_def
      configured_def)

subsection \<open>The paths through execute\<close>

lemma outcome_body_status:
  assumes "outcome_body oc shown = (s, res)"
  shows "s \<in> {''success'', ''error'', ''timeout''}"
    and "(s = ''success'') = (\<exists>x. res = Inr x)"
    and "\<forall>m. res = Inl m \<longrightarrow> m \<noteq> []"
  using assms by (auto simp: outcome_body_def split: outcome_case.splits sum.splits)

lemma execute_prologue_counter:
  "executionsTotal (execute_prologue p script) = executionsTotal p"
  by (simp add: execute_prologue_def)

lemma acquireVM_counter:
  "acquireVM p c k = Acquired v p' \<Longrightarrow> executionsTotal p' = executionsTotal p"
  by (auto simp: acquireVM_def split: option.splits acquire_case.splits list.splits)

lemma releaseVM_counter:
  "releaseVM p v k = Requeued p' \<Longrightarrow> executionsTotal p' = executionsTotal p"
  "releaseVM p v k = Discarded p' \<Longrightarrow> executionsTotal p' = executionsTotal p"
  by (auto simp: releaseVM_def split: option.splits release_case.splits if_splits)

text \<open>
  A call of \<open>execute\<close> that returns took one of two paths: the acquisition failed, or an
  interpreter was acquired, one case of the outcome \<open>select\<close> was taken and the
  interpreter was then put back or dropped.
\<close>

lemma execute_returned_cases:
  assumes "execute p c script timeout e = ExecReturned res p' evs"
  obtains (acquire_failed) msg where
      "acquireVM (execute_prologue p script) c (pick_acquire e) = AcquireFailed msg"
      "res = Inl (''failed to acquire VM: '' @ msg)"
      "p' = deferred_metrics ''error'' (elapsed e)
              ((execute_prologue p script)
                 \<lparr>poolAvailable := poolAvailable (execute_prologue p script) + 1\<rparr>)"
      "evs = []"
  | (ran) v p2 oc s p3 where
      "acquireVM (execute_prologue p script) c (pick_acquire e) = Acquired v p2"
      "select_case (outcome_ready (run_task v (task e))
         (execCtx_done c timeout (timer_fired e))) (pick_outcome e) = Some oc"
      "outcome_body oc (fmt_duration e timeout) = (s, res)"
      "releaseVM p2 v (pick_release e) = Requeued p3 \<and>
         evs = [HandleRequeued v (run_task v (task e))] \<or>
       releaseVM p2 v (pick_release e) = Discarded p3 \<and>
         evs = [HandleDiscarded v (run_task v (task e))]"
      "p' = deferred_metrics s (elapsed e) (p3\<lparr>poolAvailable := poolAvailable p3 + 1\<rparr>)"
proof (cases "acquireVM (execute_prologue p script) c (pick_acquire e)")
  case (Acquired v p2)
  show ?thesis
  proof (cases "select_case (outcome_ready (run_task v (task e))
      (execCtx_done c timeout (timer_fired e))) (pick_outcome e)")
    case None
    with Acquired assms show ?thesis
      by (simp add: execute_def Let_def)
  next
    case (Some oc)
    obtain s r where body: "outcome_body oc (fmt_duration e timeout) = (s, r)"
      by (cases "outcome_body oc (fmt_duration e timeout)")
    show ?thesis
    proof (cases "releaseVM p2 v (pick_release e)")
      case (Requeued p3)
      with Acquired Some body assms ran [of v p2 oc s p3] show ?thesis
        by (simp add: execute_def Let_def)
    next
      case (Discarded p3)
      with Acquired Some body assms ran [of v p2 oc s p3] show ?thesis
        by (simp add: execute_def Let_def)
    next
      case ReleasePanicked
      with Acquired Some body assms show ?thesis
        by (simp add: execute_def Let_def)
    next
      case ReleaseBlocked
      with Acquired Some body assms show ?thesis
        by (simp add: execute_def Let_def)
    qed
  qed
next
  case (AcquireFailed msg)
  with assms acquire_failed [of msg] show ?thesis
    by (simp add: execute_def Let_def)
next
  case AcquireBlocked
  with assms show ?thesis
    by (simp add: execute_def Let_def)
qed

text \<open>A call that panics does so in the deferred release, after an outcome was chosen.\<close>

lemma execute_panicked_cases:
  assumes "execute p c script timeout e = ExecPanicked p'"
  obtains v p2 oc s res where
      "acquireVM (execute_prologue p script) c (pick_acquire e) = Acquired v p2"
      "select_case (outcome_ready (run_task v (task e))
         (execCtx_done c timeout (timer_fired e))) (pick_outcome e) = Some oc"
      "outcome_body oc (fmt_duration e timeout) = (s, res)"
      "releaseVM p2 v (pick_release e) = ReleasePanicked"
      "p' = deferred_metrics s (elapsed e) p2"
proof (cases "acquireVM (execute_prologue p script) c (pick_acquire e)")
  case (Acquired v p2)
  show ?thesis
  proof (cases "select_case (outcome_ready (run_task v (task e))
      (execCtx_done c timeout (timer_fired e))) (pick_outcome e)")
    case None
    with Acquired assms show ?thesis
      by (simp add: execute_def Let_def)
  next
    case (Some oc)
    obtain s r where body: "outcome_body oc (fmt_duration e timeout) = (s, r)"
      by (cases "outcome_body oc (fmt_duration e timeout)")
    with Acquired Some assms that [of v p2 oc s r] show ?thesis
      by (cases "releaseVM p2 v (pick_release e)") (simp_all add: execute_def Let_def)
  qed
next
  case (AcquireFailed msg)
  with assms show ?thesis
    by (simp add: execute_def Let_def)
next
  case AcquireBlocked
  with assms show ?thesis
    by (simp add: execute_def Let_def)
qed


lemma execute_panicked_status:
  assumes "execute p c script timeout e = ExecPanicked p'"
  shows "\<exists>s. s \<in> {''success'', ''error'', ''timeout''} \<and>
             executionsTotal p' = (executionsTotal p)(s := executionsTotal p s + 1) \<and>
             (\<forall>msg. acquireVM (execute_prologue p script) c (pick_acquire e) = AcquireFailed msg
                \<longrightarrow> s = ''error'')"
  using assms
proof (cases rule: execute_panicked_cases)
  case (1 v p2 oc s res)
  have "executionsTotal p2 = executionsTotal p"
    using 1(1) acquireVM_counter execute_prologue_counter by metis
  then show ?thesis
    using 1(1,5) outcome_body_status(1) [OF 1(3)]
    by (intro exI [of _ s]) (auto simp: deferred_metrics_def)
qed

subsection \<open>Evaluations at the concrete inputs\<close>

lemma execute_serving_times_out:
  "execute serving CtxActive ''for(;;){}'' (100 * Millisecond) timeout_env =
     ExecReturned (Inl ''execution timeout after 100ms'') timed_out
       [HandleRequeued (Some 0) TaskRunning]"
  by (simp add: execute_def execute_prologue_def acquireVM_def acquire_ready_def
      select_case_def run_task_def execCtx_done_def outcome_ready_def outcome_body_def
      releaseVM_def release_ready_def deferred_metrics_def timeout_env_def running_env_def
      timed_out_def serving_def configured_def)

lemma Execute_timeout_loop_request:
  "Execute_timeout (cfg serving) loop_request = 100 * Millisecond"
  by (simp add: Execute_timeout_def loop_request_def word_sless_alt)

lemma Execute_loop_request:
  "Execute serving timeout_env loop_request zero_response =
     RpcReturned None timeout_response timed_out [HandleRequeued (Some 0) TaskRunning]"
proof -
  have "Code loop_request = ''for(;;){}''"
    by (simp add: loop_request_def)
  then show ?thesis
    using execute_serving_times_out Execute_timeout_loop_request
    by (simp add: Execute_def Execute_reply_def zero_response_def timeout_response_def
        loop_request_def timeout_env_def running_env_def)
qed

lemma Execute_empty_request:
  "Execute serving timeout_env empty_request zero_response =
     RpcReturned (Some ''code is required'')
       \<lparr>Result = None, DurationMs = 0, Error = ''code is required'', RespRequestID = []\<rparr>
       serving []"
  by (simp add: Execute_def empty_request_def zero_response_def)

subsection \<open>Release and the script goroutine\<close>

text \<open>
  The only path on which an interpreter goes back into the pool while its script goroutine
  has not delivered an outcome is the timeout case of the outcome \<open>select\<close>; after a
  received result or error the goroutine has finished.
\<close>

lemma requeued_while_running_only_on_timeout:
  assumes "execute p c script timeout e = ExecReturned res p' evs"
    and "HandleRequeued v TaskRunning \<in> set evs"
  shows "res = Inl (''execution timeout after '' @ fmt_duration e timeout)"
  using assms(1)
proof (cases rule: execute_returned_cases)
  case (acquire_failed msg)
  with assms(2) show ?thesis by simp
next
  case (ran v' p2 oc s p3)
  with assms(2) have "run_task v' (task e) = TaskRunning" by auto
  with ran(2) have "oc = ExecDone"
    by (auto simp: select_case_def outcome_ready_def split: if_splits)
  with ran(3) show ?thesis
    by (simp add: outcome_body_def)
qed

text \<open>
  Claim C1: an interpreter acquired for an execution goes back to the pool only after the
  script goroutine has terminated, in particular not when the timeout wins the race. The
  code does not wait on that path. For the script \<open>for(;;){}\<close> under a deadline of 100 ms
  on a pool of one interpreter, \<open>execute\<close> returns the timeout error and its deferred
  release has put interpreter 0 back into the pool while the script goroutine was last
  seen running.
\<close>

theorem execute_timeout_requeues_running_interpreter:
  "execute serving CtxActive ''for(;;){}'' (100 * Millisecond) timeout_env =
     ExecReturned (Inl ''execution timeout after 100ms'') timed_out
       [HandleRequeued (Some 0) TaskRunning] \<and>
   task timeout_env = TaskRunning \<and>
   chan_buf (vmPool timed_out) = [Some 0]"
  using execute_serving_times_out
  by (simp add: timed_out_def serving_def timeout_env_def running_env_def)

subsection \<open>The pool after shutdown\<close>

lemma acquireVM_after_stop_never_waits:
  "stopCh p \<Longrightarrow> acquireVM p c pick \<noteq> AcquireBlocked"
  by (auto simp: acquireVM_def acquire_ready_def select_case_def
      split: option.splits acquire_case.splits list.splits)

lemma acquireVM_after_stop_empty_pool:
  assumes "stopCh p" and "chan_buf (vmPool p) = []" and "\<not> chan_closed (vmPool p)"
  shows "acquireVM p CtxActive pick = AcquireFailed ''plugin is shutting down''"
  using assms by (simp add: acquireVM_def acquire_ready_def select_case_def)

lemma releaseVM_after_stop_never_waits:
  "stopCh p \<Longrightarrow> releaseVM p v pick \<noteq> ReleaseBlocked"
  by (auto simp: releaseVM_def release_ready_def select_case_def
      split: option.splits release_case.splits)

text \<open>
  Once \<open>Stop\<close> has closed the pool channel, a receive from the drained channel yields a
  \<open>nil\<close> interpreter without an error, and a send to it panics.
\<close>

lemma acquireVM_drained_yields_nil: "acquireVM drained CtxActive 0 = Acquired None drained"
  by (simp add: acquireVM_def acquire_ready_def select_case_def drained_def stopped_def)

lemma releaseVM_closed_pool_can_panic: "releaseVM drained (Some 0) 0 = ReleasePanicked"
  by (simp add: releaseVM_def release_ready_def select_case_def drained_def stopped_def)

lemma execute_drained_panics:
  "execute drained CtxActive ''2+2'' (100 * Millisecond) finished_env = ExecPanicked crashed"
  by (simp add: execute_def execute_prologue_def acquireVM_def acquire_ready_def
      select_case_def run_task_def execCtx_done_def outcome_ready_def outcome_body_def
      releaseVM_def release_ready_def deferred_metrics_def finished_env_def running_env_def
      crashed_def drained_def stopped_def serving_def configured_def Millisecond_def
      word_sle_eq)

text \<open>
  Claim C2: once the shutdown signal is set, every new \<open>acquireVM\<close> fails with the
  shutting-down error and none obtains an interpreter. In the code the closed \<open>stopCh\<close>
  is one ready case of the \<open>select\<close> among others. After \<open>Stop\<close> has returned on the idle
  pool of one interpreter, the interpreter is still buffered in the channel, and an
  \<open>acquireVM\<close> whose \<open>select\<close> takes the receive obtains it.
\<close>

theorem acquireVM_after_Stop_obtains_interpreter:
  "Stop serving CtxActive = StopReturned stopped \<and> stopCh stopped \<and>
   acquireVM stopped CtxActive 0 = Acquired (Some 0) drained"
  using Stop_serving
  by (simp add: acquireVM_def acquire_ready_def select_case_def drained_def stopped_def)

text \<open>
  Claim C3: once shutdown has begun, \<open>releaseVM\<close> discards the interpreter and never puts
  it back. In the code the send to the pool is a ready case next to the closed \<open>stopCh\<close>.
  With \<open>Stop\<close> called during an execution on the pool of one interpreter, the shutdown
  signal is set and \<open>Stop\<close> waits; the \<open>releaseVM\<close> of that execution, when its \<open>select\<close>
  takes the send, puts interpreter 0 back into the pool.
\<close>

theorem releaseVM_after_stop_signal_requeues:
  "Stop in_flight CtxActive = StopWaiting draining \<and> stopCh draining \<and>
   releaseVM draining (Some 0) 0 =
     Requeued (draining\<lparr>vmPool := \<lparr>chan_buf = [Some 0], chan_cap = 1, chan_closed = False\<rparr>\<rparr>)"
  using Stop_in_flight
  by (simp add: releaseVM_def release_ready_def select_case_def draining_def in_flight_def
      serving_def)

subsection \<open>Validation\<close>

text \<open>
  Claim C4: for a request whose code is the empty string, \<open>Execute\<close> answers with an error
  in the response and never touches the pool: the plugin state it leaves, pool channel and
  pool-available gauge included, is the state it found, and no interpreter was acquired or
  released.
\<close>

theorem Execute_empty_code_short_circuits:
  "Code req = [] \<Longrightarrow>
   Execute p e req resp =
     RpcReturned (Some ''code is required'') (resp\<lparr>Error := ''code is required''\<rparr>) p []"
  by (simp add: Execute_def)

theorem Execute_empty_code_short_circuits_witness:
  "Code empty_request = [] \<and>
   Execute serving timeout_env empty_request zero_response =
     RpcReturned (Some ''code is required'')
       (zero_response\<lparr>Error := ''code is required''\<rparr>) serving []"
  using Execute_empty_code_short_circuits [of empty_request serving timeout_env zero_response]
  by (simp add: empty_request_def)

subsection \<open>Error channels\<close>




subsection \<open>The correlation identifier\<close>

text \<open>
  Claim C6 says that the response carries the request's \<open>request_id\<close> whatever the
  outcome, validation failure included. \<open>Execute\<close> assigns the field only after \<open>execute\<close>
  has returned; its return at the validation guard comes before that. The request with
  empty code and \<open>request_id\<close> \<open>req-123\<close> gets a response whose \<open>request_id\<close> is still
  empty.
\<close>

theorem Execute_empty_code_drops_request_id:
  "RequestID empty_request = ''req-123'' \<and>
   Execute serving timeout_env empty_request zero_response =
     RpcReturned (Some ''code is required'')
       \<lparr>Result = None, DurationMs = 0, Error = ''code is required'', RespRequestID = []\<rparr>
       serving []"
  using Execute_empty_request by (simp add: empty_request_def)

text \<open>
  Claim C6 as the code has it. For every request with non-empty code, whenever \<open>Execute\<close>
  returns, the response's \<open>request_id\<close> is the request's, whatever the outcome. For a
  request with empty code \<open>Execute\<close> fails the call at the validation guard and leaves the
  response's \<open>request_id\<close> as it found it.
\<close>

theorem Execute_echoes_request_id:
  "(Code req \<noteq> [] \<longrightarrow> Execute p e req resp = RpcReturned call_err resp' p' evs \<longrightarrow>
      RespRequestID resp' = RequestID req) \<and>
   (Code req = [] \<longrightarrow>
      (\<exists>unset. Execute p e req resp = RpcReturned (Some ''code is required'') unset p [] \<and>
         RespRequestID unset = RespRequestID resp))"
proof (intro conjI impI)
  assume "Code req \<noteq> []" and "Execute p e req resp = RpcReturned call_err resp' p' evs"
  then show "RespRequestID resp' = RequestID req"
    by (cases "execute p CtxActive (Code req) (Execute_timeout (cfg p) req) e")
      (auto simp: Execute_def Execute_reply_def Let_def split: sum.splits)
next
  assume "Code req = []"
  then show "\<exists>unset. Execute p e req resp = RpcReturned (Some ''code is required'') unset p [] \<and>
      RespRequestID unset = RespRequestID resp"
    by (simp add: Execute_def)
qed

theorem Execute_echoes_request_id_witness:
  "Code loop_request \<noteq> [] \<and>
   Execute serving timeout_env loop_request zero_response =
     RpcReturned None timeout_response timed_out [HandleRequeued (Some 0) TaskRunning] \<and>
   RespRequestID timeout_response = RequestID loop_request \<and>
   Code empty_request = [] \<and>
   (\<exists>unset. Execute serving timeout_env empty_request zero_response =
        RpcReturned (Some ''code is required'') unset serving [] \<and>
      RespRequestID unset = RespRequestID zero_response)"
proof -
  have loop: "Code loop_request \<noteq> []"
    by (simp add: loop_request_def)
  have empty: "Code empty_request = []"
    by (simp add: empty_request_def)
  note echoed = Execute_echoes_request_id
    [of loop_request serving timeout_env zero_response, THEN conjunct1, rule_format,
      OF loop Execute_loop_request]
  note untouched = Execute_echoes_request_id
    [of empty_request serving timeout_env zero_response, THEN conjunct2, rule_format, OF empty]
  show ?thesis
    by (intro conjI loop Execute_loop_request echoed empty untouched)
qed

subsection \<open>The timeout of an execution\<close>

lemma sint_times_Millisecond:
  fixes x :: "64 word"
  assumes "- 9223372036854 \<le> sint x" and "sint x \<le> 9223372036854"
  shows "sint (x * Millisecond) = sint x * 1000000"
proof -
  have "signed_take_bit 63 (sint x * 1000000) = sint x * 1000000"
    using assms by (intro signed_take_bit_int_eq_self) simp_all
  then show ?thesis
    by (simp add: Millisecond_def sint_word_ariths)
qed

text \<open>
  Claim C7 says that every strictly positive \<open>timeout_ms\<close> gives a deadline of exactly that
  many milliseconds. The timeout is a 64-bit count of nanoseconds, and the product with
  \<open>time.Millisecond\<close> wraps: for \<open>timeout_ms = 9223372036855\<close> the timeout handed to
  \<open>execute\<close> is negative.
\<close>

theorem Execute_timeout_wraps:
  "0 <s TimeoutMs huge_timeout_request \<and>
   sint (Execute_timeout example_cfg huge_timeout_request) = - 9223372036854551616 \<and>
   sint (Execute_timeout example_cfg huge_timeout_request) \<noteq>
     sint (TimeoutMs huge_timeout_request) * 1000000"
  by (simp add: Execute_timeout_def Millisecond_def huge_timeout_request_def word_sless_alt)

text \<open>
  Claim C7 as the code has it. A request that passes validation is executed by \<open>execute\<close>
  under the timeout \<open>Execute_timeout\<close>. For \<open>timeout_ms = 0\<close> that is the configured default,
  \<open>DefaultTimeout\<close> times \<open>time.Millisecond\<close>, which is exactly \<open>DefaultTimeout\<close>
  milliseconds while \<open>DefaultTimeout\<close> is at most 9223372036854 in absolute value. For
  \<open>0 < timeout_ms \<le> 9223372036854\<close> it is exactly \<open>timeout_ms\<close> milliseconds.
\<close>

theorem Execute_timeout_exact_in_range:
  "(Code req \<noteq> [] \<longrightarrow>
      Execute p e req resp =
        Execute_reply e req resp
          (execute p CtxActive (Code req) (Execute_timeout (cfg p) req) e)) \<and>
   (TimeoutMs req = 0 \<longrightarrow> Execute_timeout c req = DefaultTimeout c * Millisecond) \<and>
   (TimeoutMs req = 0 \<longrightarrow> - 9223372036854 \<le> sint (DefaultTimeout c) \<longrightarrow>
      sint (DefaultTimeout c) \<le> 9223372036854 \<longrightarrow>
      sint (Execute_timeout c req) = sint (DefaultTimeout c) * 1000000) \<and>
   (0 <s TimeoutMs req \<longrightarrow> sint (TimeoutMs req) \<le> 9223372036854 \<longrightarrow>
      sint (Execute_timeout c req) = sint (TimeoutMs req) * 1000000)"
proof (intro conjI impI)
  assume "Code req \<noteq> []"
  then show "Execute p e req resp =
      Execute_reply e req resp (execute p CtxActive (Code req) (Execute_timeout (cfg p) req) e)"
    by (simp add: Execute_def)
next
  assume "TimeoutMs req = 0"
  then show "Execute_timeout c req = DefaultTimeout c * Millisecond"
    by (simp add: Execute_timeout_def)
next
  assume "TimeoutMs req = 0" and "- 9223372036854 \<le> sint (DefaultTimeout c)"
    and "sint (DefaultTimeout c) \<le> 9223372036854"
  then show "sint (Execute_timeout c req) = sint (DefaultTimeout c) * 1000000"
    by (simp add: Execute_timeout_def sint_times_Millisecond)
next
  assume pos: "0 <s TimeoutMs req" and le: "sint (TimeoutMs req) \<le> 9223372036854"
  from pos have "0 < sint (TimeoutMs req)"
    by (simp add: word_sless_alt)
  with pos le show "sint (Execute_timeout c req) = sint (TimeoutMs req) * 1000000"
    by (simp add: Execute_timeout_def sint_times_Millisecond)
qed

theorem Execute_timeout_exact_in_range_witness:
  "Code loop_request \<noteq> [] \<and> 0 <s TimeoutMs loop_request \<and>
   sint (TimeoutMs loop_request) \<le> 9223372036854 \<and>
   sint (Execute_timeout example_cfg loop_request) = 100000000 \<and>
   TimeoutMs empty_request = 0 \<and>
   sint (Execute_timeout example_cfg empty_request) = 30000000000 \<and>
   Execute serving timeout_env loop_request zero_response =
     Execute_reply timeout_env loop_request zero_response
       (execute serving CtxActive (Code loop_request)
          (Execute_timeout (cfg serving) loop_request) timeout_env)"
  using Execute_timeout_exact_in_range
    [of loop_request serving timeout_env zero_response example_cfg]
    Execute_timeout_exact_in_range
    [of empty_request serving timeout_env zero_response example_cfg]
  by (simp add: loop_request_def empty_request_def example_cfg_def word_sless_alt
      Millisecond_def)

subsection \<open>The executions counter\<close>

lemma execute_serving_succeeds:
  "execute serving CtxActive ''2+2'' (100 * Millisecond) finished_env =
     ExecReturned (Inr (Some 4)) succeeded
       [HandleRequeued (Some 0) (TaskReturned (Inr (Some 4)))]"
  by (simp add: execute_def execute_prologue_def acquireVM_def acquire_ready_def
      select_case_def run_task_def execCtx_done_def outcome_ready_def outcome_body_def
      releaseVM_def release_ready_def deferred_metrics_def finished_env_def running_env_def
      succeeded_def serving_def configured_def Millisecond_def word_sle_eq)

text \<open>The label and the returned pair that each case of the outcome \<open>select\<close> assigns.\<close>

lemma outcome_body_label:
  "outcome_body oc shown = (s, res) \<Longrightarrow>
     (case oc of
        RecvResult (Inl err) \<Rightarrow> s = ''error'' \<and> res = Inl (''failed to export result: '' @ err)
      | RecvResult (Inr x) \<Rightarrow> s = ''success'' \<and> res = Inr x
      | RecvErr err \<Rightarrow> s = ''error'' \<and> res = Inl (''execution error: '' @ err)
      | ExecDone \<Rightarrow> s = ''timeout'' \<and> res = Inl (''execution timeout after '' @ shown))"
  by (auto simp: outcome_body_def split: outcome_case.splits sum.splits)

text \<open>
  Claim C8: every execution that reaches \<open>execute\<close> and leaves it, by returning or by a
  panic in its deferred release, has incremented the executions counter exactly once: at
  one label, by one, every other label unchanged. The label is the final status of the
  execution: \<open>error\<close> when the acquisition failed, and after an acquisition the status of
  the case that the outcome \<open>select\<close> took, \<open>success\<close> for a received value that exports,
  \<open>error\<close> for one whose export fails and for a received error, \<open>timeout\<close> for the expired
  deadline. It is \<open>success\<close> exactly when a value is returned.
\<close>

theorem execute_counts_exactly_once:
  "execute p c script timeout e = ExecReturned res p' evs \<or>
   execute p c script timeout e = ExecPanicked p' \<Longrightarrow>
   \<exists>s. s \<in> {''success'', ''error'', ''timeout''} \<and>
       executionsTotal p' = (executionsTotal p)(s := executionsTotal p s + 1) \<and>
       (\<forall>x. execute p c script timeout e = ExecReturned (Inr x) p' evs \<longrightarrow> s = ''success'') \<and>
       (\<forall>m. execute p c script timeout e = ExecReturned (Inl m) p' evs \<longrightarrow> s \<noteq> ''success'') \<and>
       (\<forall>msg. acquireVM (execute_prologue p script) c (pick_acquire e) = AcquireFailed msg
          \<longrightarrow> s = ''error'') \<and>
       (case acquireVM (execute_prologue p script) c (pick_acquire e) of
          AcquireBlocked \<Rightarrow> False
        | AcquireFailed msg \<Rightarrow> s = ''error''
        | Acquired v p2 \<Rightarrow>
            (case select_case (outcome_ready (run_task v (task e))
                    (execCtx_done c timeout (timer_fired e))) (pick_outcome e) of
               None \<Rightarrow> False
             | Some (RecvResult (Inr x)) \<Rightarrow> s = ''success''
             | Some (RecvResult (Inl err)) \<Rightarrow> s = ''error''
             | Some (RecvErr err) \<Rightarrow> s = ''error''
             | Some ExecDone \<Rightarrow> s = ''timeout''))"
proof (elim disjE)
  assume ret: "execute p c script timeout e = ExecReturned res p' evs"
  then show ?thesis
  proof (cases rule: execute_returned_cases)
    case (acquire_failed msg)
    with ret show ?thesis
      by (intro exI [of _ "''error''"])
        (simp add: deferred_metrics_def execute_prologue_def)
  next
    case (ran v p2 oc s p3)
    have total: "executionsTotal p3 = executionsTotal p"
      using ran(1,4) acquireVM_counter releaseVM_counter execute_prologue_counter by metis
    have count: "executionsTotal p' = (executionsTotal p)(s := executionsTotal p s + 1)"
      using ran(5) total by (simp add: deferred_metrics_def)
    note label = outcome_body_label [OF ran(3)]
    from ret ran(1,2) count outcome_body_status [OF ran(3)] label show ?thesis
      by (intro exI [of _ s]) (auto split: outcome_case.splits sum.splits)
  qed
next
  assume pan: "execute p c script timeout e = ExecPanicked p'"
  then show ?thesis
  proof (cases rule: execute_panicked_cases)
    case (1 v p2 oc s res')
    have total: "executionsTotal p2 = executionsTotal p"
      using 1(1) acquireVM_counter execute_prologue_counter by metis
    have count: "executionsTotal p' = (executionsTotal p)(s := executionsTotal p s + 1)"
      using 1(5) total by (simp add: deferred_metrics_def)
    note label = outcome_body_label [OF 1(3)]
    from pan 1(1,2) count outcome_body_status(1) [OF 1(3)] label show ?thesis
      by (intro exI [of _ s]) (auto split: outcome_case.splits sum.splits)
  qed
qed


theorem execute_counts_exactly_once_witness:
  "execute serving CtxActive ''for(;;){}'' (100 * Millisecond) timeout_env =
     ExecReturned (Inl ''execution timeout after 100ms'') timed_out
       [HandleRequeued (Some 0) TaskRunning] \<and>
   executionsTotal timed_out =
     (executionsTotal serving)(''timeout'' := executionsTotal serving ''timeout'' + 1) \<and>
   execute serving CtxActive ''2+2'' (100 * Millisecond) finished_env =
     ExecReturned (Inr (Some 4)) succeeded
       [HandleRequeued (Some 0) (TaskReturned (Inr (Some 4)))] \<and>
   executionsTotal succeeded =
     (executionsTotal serving)(''success'' := executionsTotal serving ''success'' + 1) \<and>
   execute drained CtxActive ''2+2'' (100 * Millisecond) finished_env = ExecPanicked crashed \<and>
   executionsTotal crashed =
     (executionsTotal drained)(''error'' := executionsTotal drained ''error'' + 1)"
proof -
  note evaluate = execute_prologue_def acquireVM_def acquire_ready_def select_case_def
    run_task_def execCtx_done_def outcome_ready_def timeout_env_def finished_env_def
    running_env_def drained_def stopped_def serving_def configured_def Millisecond_def
    word_sle_eq
  from execute_counts_exactly_once [OF disjI1, OF execute_serving_times_out] obtain s where
    "executionsTotal timed_out = (executionsTotal serving)(s := executionsTotal serving s + 1)"
    and "case acquireVM (execute_prologue serving ''for(;;){}'') CtxActive
             (pick_acquire timeout_env) of
           AcquireBlocked \<Rightarrow> False
         | AcquireFailed msg \<Rightarrow> s = ''error''
         | Acquired v p2 \<Rightarrow>
             (case select_case (outcome_ready (run_task v (task timeout_env))
                     (execCtx_done CtxActive (100 * Millisecond) (timer_fired timeout_env)))
                   (pick_outcome timeout_env) of
                None \<Rightarrow> False
              | Some (RecvResult (Inr x)) \<Rightarrow> s = ''success''
              | Some (RecvResult (Inl err)) \<Rightarrow> s = ''error''
              | Some (RecvErr err) \<Rightarrow> s = ''error''
              | Some ExecDone \<Rightarrow> s = ''timeout'')"
    by blast
  then have timeout: "executionsTotal timed_out =
      (executionsTotal serving)(''timeout'' := executionsTotal serving ''timeout'' + 1)"
    by (simp add: evaluate)
  from execute_counts_exactly_once [OF disjI1, OF execute_serving_succeeds] obtain s where
    "executionsTotal succeeded = (executionsTotal serving)(s := executionsTotal serving s + 1)"
    and "case acquireVM (execute_prologue serving ''2+2'') CtxActive
             (pick_acquire finished_env) of
           AcquireBlocked \<Rightarrow> False
         | AcquireFailed msg \<Rightarrow> s = ''error''
         | Acquired v p2 \<Rightarrow>
             (case select_case (outcome_ready (run_task v (task finished_env))
                     (execCtx_done CtxActive (100 * Millisecond) (timer_fired finished_env)))
                   (pick_outcome finished_env) of
                None \<Rightarrow> False
              | Some (RecvResult (Inr x)) \<Rightarrow> s = ''success''
              | Some (RecvResult (Inl err)) \<Rightarrow> s = ''error''
              | Some (RecvErr err) \<Rightarrow> s = ''error''
              | Some ExecDone \<Rightarrow> s = ''timeout'')"
    by blast
  then have success: "executionsTotal succeeded =
      (executionsTotal serving)(''success'' := executionsTotal serving ''success'' + 1)"
    by (simp add: evaluate)
  from execute_counts_exactly_once [where res = "Inl []" and evs = "[]", OF disjI2, OF execute_drained_panics]
  obtain s where
    "executionsTotal crashed = (executionsTotal drained)(s := executionsTotal drained s + 1)"
    and "case acquireVM (execute_prologue drained ''2+2'') CtxActive
             (pick_acquire finished_env) of
           AcquireBlocked \<Rightarrow> False
         | AcquireFailed msg \<Rightarrow> s = ''error''
         | Acquired v p2 \<Rightarrow>
             (case select_case (outcome_ready (run_task v (task finished_env))
                     (execCtx_done CtxActive (100 * Millisecond) (timer_fired finished_env)))
                   (pick_outcome finished_env) of
                None \<Rightarrow> False
              | Some (RecvResult (Inr x)) \<Rightarrow> s = ''success''
              | Some (RecvResult (Inl err)) \<Rightarrow> s = ''error''
              | Some (RecvErr err) \<Rightarrow> s = ''error''
              | Some ExecDone \<Rightarrow> s = ''timeout'')"
    by blast
  then have error: "executionsTotal crashed =
      (executionsTotal drained)(''error'' := executionsTotal drained ''error'' + 1)"
    by (simp add: evaluate)
  show ?thesis
    by (intro conjI execute_serving_times_out timeout execute_serving_succeeds success
        execute_drained_panics error)
qed

section \<open>Properties of the sandbox bindings\<close>

subsection \<open>Structured logging\<close>

lemma getFields_loop_eq:
  "getFields_loop export obj keys fs = fs @ List.map_filter (exported_field export obj) keys"
  by (induction keys arbitrary: fs)
    (auto simp: List.map_filter_simps exported_field_def split: sum.splits)

lemma getFields_total: "\<exists>fs. getFields export args = Inr fs"
  by (auto simp: getFields_def Let_def IsObject_def Object_def split: js_value.splits)

text \<open>
  Claim C10: whatever arguments a script passes, each of the four log bindings returns
  \<open>undefined\<close> after one call to the logger and never panics. Without arguments the message
  is the empty string. With fewer than two arguments, or a second argument that is not an
  object, there are no fields. For an object, the fields are its keys in order, leaving
  out each key whose read or whose export reports an error.
\<close>

theorem log_bindings_never_throw:
  "(\<exists>fs. getFields export args = Inr fs \<and>
      LogBinding_info to_string export logger args =
        Inr (JsUndefined, logger @ [(InfoLevel, getMessage to_string args, fs)]) \<and>
      LogBinding_warn to_string export logger args =
        Inr (JsUndefined, logger @ [(WarnLevel, getMessage to_string args, fs)]) \<and>
      LogBinding_error to_string export logger args =
        Inr (JsUndefined, logger @ [(ErrorLevel, getMessage to_string args, fs)]) \<and>
      LogBinding_debug to_string export logger args =
        Inr (JsUndefined, logger @ [(DebugLevel, getMessage to_string args, fs)])) \<and>
   getMessage to_string [] = [] \<and>
   (length args < 2 \<longrightarrow> getFields export args = Inr []) \<and>
   (\<not> IsObject (Argument args 1) \<longrightarrow> getFields export args = Inr []) \<and>
   getFields export [msg, JsObject obj] =
     Inr (List.map_filter (exported_field export obj) (Keys obj))"
proof (intro conjI impI)
  obtain fs where "getFields export args = Inr fs"
    using getFields_total by blast
  then show "\<exists>fs. getFields export args = Inr fs \<and>
      LogBinding_info to_string export logger args =
        Inr (JsUndefined, logger @ [(InfoLevel, getMessage to_string args, fs)]) \<and>
      LogBinding_warn to_string export logger args =
        Inr (JsUndefined, logger @ [(WarnLevel, getMessage to_string args, fs)]) \<and>
      LogBinding_error to_string export logger args =
        Inr (JsUndefined, logger @ [(ErrorLevel, getMessage to_string args, fs)]) \<and>
      LogBinding_debug to_string export logger args =
        Inr (JsUndefined, logger @ [(DebugLevel, getMessage to_string args, fs)])"
    by (simp add: LogBinding_info_def LogBinding_warn_def LogBinding_error_def
        LogBinding_debug_def log_at_def)
next
  show "getMessage to_string [] = []"
    by (simp add: getMessage_def)
next
  assume "length args < 2"
  then show "getFields export args = Inr []"
    by (simp add: getFields_def)
next
  assume "\<not> IsObject (Argument args 1)"
  then show "getFields export args = Inr []"
    by (simp add: getFields_def Let_def)
next
  show "getFields export [msg, JsObject obj] =
      Inr (List.map_filter (exported_field export obj) (Keys obj))"
    by (simp add: getFields_def Let_def Argument_def IsObject_def Object_def
        getFields_loop_eq)
qed

theorem log_bindings_never_throw_witness:
  "length [JsString ''paid''] < 2 \<and>
   getFields sample_Export [JsString ''paid''] = Inr [] \<and>
   \<not> IsObject (Argument [JsString ''paid'', JsNumber 7] 1) \<and>
   getFields sample_Export [JsString ''paid'', JsNumber 7] = Inr [] \<and>
   getFields sample_Export [JsString ''paid'', JsObject sample_fields] =
     Inr [(''order_id'', 12345)] \<and>
   LogBinding_warn sample_String sample_Export [] [] = Inr (JsUndefined, [(WarnLevel, [], [])])"
proof -
  have short: "length [JsString ''paid''] < 2"
    by simp
  have scalar: "\<not> IsObject (Argument [JsString ''paid'', JsNumber 7] 1)"
    by (simp add: IsObject_def Argument_def)
  have none: "getFields sample_Export [] = Inr []"
    by (simp add: getFields_def)
  note at_short = log_bindings_never_throw
    [of sample_Export "[JsString ''paid'']" sample_String "[]" "JsString ''paid''" sample_fields]
  note at_scalar = log_bindings_never_throw
    [of sample_Export "[JsString ''paid'', JsNumber 7]" sample_String "[]" "JsString ''paid''"
      sample_fields]
  note at_none = log_bindings_never_throw
    [of sample_Export "[]" sample_String "[]" "JsString ''paid''" sample_fields]
  have fields: "getFields sample_Export [JsString ''paid'', JsObject sample_fields] =
      Inr [(''order_id'', 12345)]"
    using at_short
    by (simp add: Keys_def Get_def exported_field_def sample_fields_def sample_Export_def
        List.map_filter_simps)
  have warn: "LogBinding_warn sample_String sample_Export [] [] =
      Inr (JsUndefined, [(WarnLevel, [], [])])"
    using at_none none by (auto simp: getMessage_def)
  from at_short short have a: "getFields sample_Export [JsString ''paid''] = Inr []"
    by blast
  from at_scalar scalar have b: "getFields sample_Export [JsString ''paid'', JsNumber 7] = Inr []"
    by blast
  show ?thesis
    by (intro conjI short a scalar b fields warn)
qed

subsection \<open>Custom metrics\<close>

lemma getOrCreate_cached:
  "cache name = Some cached \<Longrightarrow>
   getOrCreate k register cache w name labels = (Some cached, cache, w)"
  by (simp add: getOrCreate_def)

lemma getOrCreate_miss:
  assumes "cache name = None"
    and "register reg (new_collector k fresh name labels) = (err, reg')"
  shows "getOrCreate k register cache (reg, fresh) name labels =
     (case err of
        None \<Rightarrow>
          (Some (new_collector k fresh name labels),
           cache(name \<mapsto> new_collector k fresh name labels), (reg', Suc fresh))
      | Some (AlreadyRegisteredError existing) \<Rightarrow>
          if col_kind existing = k
          then (Some existing, cache(name \<mapsto> existing), (reg', Suc fresh))
          else (None, cache, (reg', Suc fresh))
      | Some OtherError \<Rightarrow> (None, cache, (reg', Suc fresh)))"
  using assms
  by (simp add: getOrCreate_def Let_def split: option.splits register_error.splits)

lemma find_append_first:
  "find P xs = None \<Longrightarrow> P c \<Longrightarrow> find P (xs @ c # ys) = Some c"
  by (induction xs) (auto split: if_splits)

text \<open>
  Against the library's registry, the first valid registration of an unknown name is
  accepted, and it wins across bindings as long as the later attempt comes with the same
  set of label names: a second binding, whose own cache does not know the name yet, is
  handed the collector registered first. A binding that has cached a collector returns it
  without asking the registry.
\<close>

lemma first_registration_accepted:
  assumes "find (\<lambda>x. col_fqName x = BuildFQName name) reg = None"
    and "userCounters m1 name = None"
    and "valid (new_collector CounterVec fresh1 name labels1)"
  shows "getOrCreateCounter (prometheus_Register valid) m1 (reg, fresh1) name labels1 =
     (Some (new_collector CounterVec fresh1 name labels1),
      m1\<lparr>userCounters := (userCounters m1)(name \<mapsto> new_collector CounterVec fresh1 name labels1)\<rparr>,
      (reg @ [new_collector CounterVec fresh1 name labels1], Suc fresh1))"
proof -
  let ?first = "new_collector CounterVec fresh1 name labels1"
  have "find (\<lambda>x. col_fqName x = col_fqName ?first) reg = None"
    using assms(1) by (simp add: new_collector_def)
  then have "prometheus_Register valid reg ?first = (None, reg @ [?first])"
    using assms(3) by (simp add: prometheus_Register_def)
  from getOrCreate_miss
    [where cache = "userCounters m1" and register = "prometheus_Register valid", OF assms(2) this]
  show ?thesis
    by (simp add: getOrCreateCounter_def)
qed

lemma later_registration_same_labels:
  assumes "find (\<lambda>x. col_fqName x = BuildFQName name) reg = None"
    and "userCounters m2 name = None"
    and "valid (new_collector CounterVec fresh2 name labels2)"
    and "set (map fst labels2) = set (map fst labels1)"
  shows "getOrCreateCounter (prometheus_Register valid) m2
           (reg @ new_collector CounterVec fresh1 name labels1 # later, fresh2) name labels2 =
         (Some (new_collector CounterVec fresh1 name labels1),
          m2\<lparr>userCounters := (userCounters m2)(name \<mapsto> new_collector CounterVec fresh1 name labels1)\<rparr>,
          (reg @ new_collector CounterVec fresh1 name labels1 # later, Suc fresh2))"
proof -
  let ?first = "new_collector CounterVec fresh1 name labels1"
  let ?second = "new_collector CounterVec fresh2 name labels2"
  have "find (\<lambda>x. col_fqName x = col_fqName ?second) (reg @ ?first # later) = Some ?first"
    using assms(1) by (intro find_append_first) (simp_all add: new_collector_def)
  then have "prometheus_Register valid (reg @ ?first # later) ?second =
      (Some (AlreadyRegisteredError ?first), reg @ ?first # later)"
    using assms(3,4) by (simp add: prometheus_Register_def new_collector_def)
  from getOrCreate_miss
    [where cache = "userCounters m2" and register = "prometheus_Register valid", OF assms(2) this]
  show ?thesis
    by (simp add: getOrCreateCounter_def new_collector_def)
qed

lemma cached_registration:
  "getOrCreateCounter register (m\<lparr>userCounters := (userCounters m)(name \<mapsto> first)\<rparr>) w name labels =
     (Some first, m\<lparr>userCounters := (userCounters m)(name \<mapsto> first)\<rparr>, w)"
  by (simp add: getOrCreateCounter_def getOrCreate_def)

text \<open>With different label names the registry refuses and the later attempt fails.\<close>

lemma second_register_fails_when_labels_differ:
  assumes "find (\<lambda>x. col_fqName x = BuildFQName name) reg = None"
    and "userCounters m2 name = None"
    and "set (map fst labels2) \<noteq> set (map fst labels1)"
  shows "getOrCreateCounter (prometheus_Register valid) m2
           (reg @ new_collector CounterVec fresh1 name labels1 # later, fresh2) name labels2 =
         (None, m2, (reg @ new_collector CounterVec fresh1 name labels1 # later, Suc fresh2))"
proof -
  let ?first = "new_collector CounterVec fresh1 name labels1"
  let ?second = "new_collector CounterVec fresh2 name labels2"
  have "find (\<lambda>x. col_fqName x = col_fqName ?second) (reg @ ?first # later) = Some ?first"
    using assms(1) by (intro find_append_first) (simp_all add: new_collector_def)
  then have "prometheus_Register valid (reg @ ?first # later) ?second =
      (Some OtherError, reg @ ?first # later)"
    using assms(3) by (auto simp: prometheus_Register_def new_collector_def)
  from getOrCreate_miss
    [where cache = "userCounters m2" and register = "prometheus_Register valid", OF assms(2) this]
  show ?thesis
    by (simp add: getOrCreateCounter_def)
qed

text \<open>
  Whatever the registry answers, a name first registered as a gauge never yields that
  gauge to \<open>getOrCreateCounter\<close>: the counter functions accept counters only.
\<close>

lemma getOrCreateCounter_yields_counters:
  assumes "userCounters m name = None"
    and "getOrCreateCounter register m w name labels = (Some c, m', w')"
  shows "col_kind c = CounterVec"
proof -
  obtain reg fresh where w: "w = (reg, fresh)"
    by (cases w)
  obtain err reg' where r: "register reg (new_collector CounterVec fresh name labels) = (err, reg')"
    by (cases "register reg (new_collector CounterVec fresh name labels)")
  from assms(2) getOrCreate_miss
    [where cache = "userCounters m" and register = register, OF assms(1) r]
  show ?thesis
    unfolding w getOrCreateCounter_def
    by (auto simp: new_collector_def split: option.splits register_error.splits if_splits)
qed

text \<open>
  With the library's registry the kinds do not share names either: once a gauge \<open>hits\<close> is
  registered, the help texts differ and a counter \<open>hits\<close> is refused.
\<close>

lemma counter_after_gauge_of_same_name_fails:
  "(case getOrCreateGauge (prometheus_Register accept_all) newMetricsBinding ([], 0) ''hits'' [] of
      (g, m, w) \<Rightarrow>
        g \<noteq> None \<and>
        fst (getOrCreateCounter (prometheus_Register accept_all) m w ''hits'' []) = None)"
  by (simp add: getOrCreateGauge_def getOrCreateCounter_def getOrCreate_def
      prometheus_Register_def newMetricsBinding_def new_collector_def BuildFQName_def
      accept_all_def Let_def)

text \<open>
  Claim C9 says that a second or later registration under a name always returns the
  collector registered first instead of failing. With the library's registry, a binding
  that registers the counter \<open>hits\<close> with the label \<open>route\<close> gets a collector; a second
  binding that then registers \<open>hits\<close> with the label \<open>method\<close> gets \<open>nil\<close>.
\<close>

theorem getOrCreateCounter_fails_on_other_labels:
  "fst (getOrCreateCounter (prometheus_Register accept_all) newMetricsBinding ([], 0)
          ''hits'' [(''route'', ''/a'')]) = Some hits_by_route \<and>
   snd (snd (getOrCreateCounter (prometheus_Register accept_all) newMetricsBinding ([], 0)
          ''hits'' [(''route'', ''/a'')])) = ([hits_by_route], 1) \<and>
   fst (getOrCreateCounter (prometheus_Register accept_all) newMetricsBinding
          ([hits_by_route], 1) ''hits'' [(''method'', ''GET'')]) = None"
  by (simp add: getOrCreateCounter_def getOrCreate_def prometheus_Register_def
      newMetricsBinding_def new_collector_def BuildFQName_def hits_by_route_def
      accept_all_def Let_def)

text \<open>
  Claim C9 as the code has it, against the library's registry. Registration is
  get-or-create with first-register-wins between attempts that name the same set of label
  names. The first valid registration of a counter under an unknown name returns a new
  collector, registers it and caches it in the binding; that binding then returns it on
  every later call under the name, whatever labels the call carries. A later attempt under
  the name from a binding that has not cached it, another interpreter's included, returns
  the collector registered first and caches it when it comes with a valid descriptor and
  the same set of label names; with a different set of label names it fails, returning
  \<open>nil\<close> and caching nothing. \<open>getCollector\<close> registers nothing: bindings that look a
  declared name up get the one collector the metrics plugin holds and keep returning it
  from their cache; an undeclared name gives \<open>nil\<close> and \<open>false\<close>.
\<close>

theorem getOrCreateCounter_first_register_wins:
  "(find (\<lambda>x. col_fqName x = BuildFQName name) reg = None \<longrightarrow>
    userCounters m1 name = None \<longrightarrow>
    valid (new_collector CounterVec fresh1 name labels1) \<longrightarrow>
      getOrCreateCounter (prometheus_Register valid) m1 (reg, fresh1) name labels1 =
        (Some (new_collector CounterVec fresh1 name labels1),
         m1\<lparr>userCounters :=
              (userCounters m1)(name \<mapsto> new_collector CounterVec fresh1 name labels1)\<rparr>,
         (reg @ [new_collector CounterVec fresh1 name labels1], Suc fresh1)) \<and>
      getOrCreateCounter (prometheus_Register valid)
          (m1\<lparr>userCounters :=
               (userCounters m1)(name \<mapsto> new_collector CounterVec fresh1 name labels1)\<rparr>)
          w name any_labels =
        (Some (new_collector CounterVec fresh1 name labels1),
         m1\<lparr>userCounters :=
              (userCounters m1)(name \<mapsto> new_collector CounterVec fresh1 name labels1)\<rparr>,
         w) \<and>
      (userCounters m2 name = None \<longrightarrow>
       valid (new_collector CounterVec fresh2 name same_labels) \<longrightarrow>
       set (map fst same_labels) = set (map fst labels1) \<longrightarrow>
         getOrCreateCounter (prometheus_Register valid) m2
             (reg @ new_collector CounterVec fresh1 name labels1 # later, fresh2)
             name same_labels =
           (Some (new_collector CounterVec fresh1 name labels1),
            m2\<lparr>userCounters :=
                 (userCounters m2)(name \<mapsto> new_collector CounterVec fresh1 name labels1)\<rparr>,
            (reg @ new_collector CounterVec fresh1 name labels1 # later, Suc fresh2))) \<and>
      (userCounters m2 name = None \<longrightarrow>
       set (map fst other_labels) \<noteq> set (map fst labels1) \<longrightarrow>
         getOrCreateCounter (prometheus_Register valid) m2
             (reg @ new_collector CounterVec fresh1 name labels1 # later, fresh2)
             name other_labels =
           (None, m2,
            (reg @ new_collector CounterVec fresh1 name labels1 # later, Suc fresh2)))) \<and>
   (collectors name = Some wrapped \<longrightarrow> cache1 name = None \<longrightarrow> cache2 name = None \<longrightarrow>
      getCollector cache1 (Some collectors) name =
        ((Some (col wrapped), True), cache1(name \<mapsto> col wrapped)) \<and>
      getCollector cache2 (Some collectors) name =
        ((Some (col wrapped), True), cache2(name \<mapsto> col wrapped)) \<and>
      getCollector (cache1(name \<mapsto> col wrapped)) metricsPlugin name =
        ((Some (col wrapped), True), cache1(name \<mapsto> col wrapped))) \<and>
   (cache1 name = None \<longrightarrow> collectors name = None \<longrightarrow>
      getCollector cache1 (Some collectors) name = ((None, False), cache1) \<and>
      getCollector cache1 None name = ((None, False), cache1))"
proof (intro conjI impI)
  assume a: "find (\<lambda>x. col_fqName x = BuildFQName name) reg = None"
    "userCounters m1 name = None" "valid (new_collector CounterVec fresh1 name labels1)"
  from first_registration_accepted [where valid = valid, OF a]
  show "getOrCreateCounter (prometheus_Register valid) m1 (reg, fresh1) name labels1 =
        (Some (new_collector CounterVec fresh1 name labels1),
         m1\<lparr>userCounters :=
              (userCounters m1)(name \<mapsto> new_collector CounterVec fresh1 name labels1)\<rparr>,
         (reg @ [new_collector CounterVec fresh1 name labels1], Suc fresh1))" .
  show "getOrCreateCounter (prometheus_Register valid)
          (m1\<lparr>userCounters :=
               (userCounters m1)(name \<mapsto> new_collector CounterVec fresh1 name labels1)\<rparr>)
          w name any_labels =
        (Some (new_collector CounterVec fresh1 name labels1),
         m1\<lparr>userCounters :=
              (userCounters m1)(name \<mapsto> new_collector CounterVec fresh1 name labels1)\<rparr>,
         w)"
    by (rule cached_registration)
  {
    assume b: "userCounters m2 name = None"
      "valid (new_collector CounterVec fresh2 name same_labels)"
      "set (map fst same_labels) = set (map fst labels1)"
    from later_registration_same_labels [where valid = valid, OF a(1) b]
    show "getOrCreateCounter (prometheus_Register valid) m2
             (reg @ new_collector CounterVec fresh1 name labels1 # later, fresh2)
             name same_labels =
           (Some (new_collector CounterVec fresh1 name labels1),
            m2\<lparr>userCounters :=
                 (userCounters m2)(name \<mapsto> new_collector CounterVec fresh1 name labels1)\<rparr>,
            (reg @ new_collector CounterVec fresh1 name labels1 # later, Suc fresh2))" .
  }
  {
    assume c: "userCounters m2 name = None"
      "set (map fst other_labels) \<noteq> set (map fst labels1)"
    from second_register_fails_when_labels_differ [where valid = valid, OF a(1) c]
    show "getOrCreateCounter (prometheus_Register valid) m2
             (reg @ new_collector CounterVec fresh1 name labels1 # later, fresh2)
             name other_labels =
           (None, m2,
            (reg @ new_collector CounterVec fresh1 name labels1 # later, Suc fresh2))" .
  }
next
  assume "collectors name = Some wrapped" "cache1 name = None"
  then show "getCollector cache1 (Some collectors) name =
        ((Some (col wrapped), True), cache1(name \<mapsto> col wrapped))"
    by (simp add: getCollector_def)
next
  assume "collectors name = Some wrapped" "cache2 name = None"
  then show "getCollector cache2 (Some collectors) name =
        ((Some (col wrapped), True), cache2(name \<mapsto> col wrapped))"
    by (simp add: getCollector_def)
next
  show "getCollector (cache1(name \<mapsto> col wrapped)) metricsPlugin name =
        ((Some (col wrapped), True), cache1(name \<mapsto> col wrapped))"
    by (simp add: getCollector_def)
next
  assume "cache1 name = None" "collectors name = None"
  then show "getCollector cache1 (Some collectors) name = ((None, False), cache1)"
    by (simp add: getCollector_def)
next
  assume "cache1 name = None"
  then show "getCollector cache1 None name = ((None, False), cache1)"
    by (simp add: getCollector_def)
qed


theorem getOrCreateCounter_first_register_wins_witness:
  "find (\<lambda>x. col_fqName x = BuildFQName ''hits'') [] = None \<and>
   userCounters newMetricsBinding ''hits'' = None \<and>
   accept_all (new_collector CounterVec 0 ''hits'' [(''route'', ''/a'')]) \<and>
   new_collector CounterVec 0 ''hits'' [(''route'', ''/a'')] = hits_by_route \<and>
   getOrCreateCounter (prometheus_Register accept_all) newMetricsBinding ([], 0) ''hits''
       [(''route'', ''/a'')] =
     (Some (new_collector CounterVec 0 ''hits'' [(''route'', ''/a'')]),
      newMetricsBinding\<lparr>userCounters := (userCounters newMetricsBinding)
        (''hits'' \<mapsto> new_collector CounterVec 0 ''hits'' [(''route'', ''/a'')])\<rparr>,
      ([] @ [new_collector CounterVec 0 ''hits'' [(''route'', ''/a'')]], Suc 0)) \<and>
   getOrCreateCounter (prometheus_Register accept_all)
       (newMetricsBinding\<lparr>userCounters := (userCounters newMetricsBinding)
          (''hits'' \<mapsto> new_collector CounterVec 0 ''hits'' [(''route'', ''/a'')])\<rparr>)
       ([hits_by_route], 1) ''hits'' [(''method'', ''GET'')] =
     (Some (new_collector CounterVec 0 ''hits'' [(''route'', ''/a'')]),
      newMetricsBinding\<lparr>userCounters := (userCounters newMetricsBinding)
        (''hits'' \<mapsto> new_collector CounterVec 0 ''hits'' [(''route'', ''/a'')])\<rparr>,
      ([hits_by_route], 1)) \<and>
   accept_all (new_collector CounterVec 1 ''hits'' [(''route'', ''/b'')]) \<and>
   set (map fst [(''route'', ''/b'')]) = set (map fst [(''route'', ''/a'')]) \<and>
   getOrCreateCounter (prometheus_Register accept_all) newMetricsBinding
       ([] @ new_collector CounterVec 0 ''hits'' [(''route'', ''/a'')] # [], 1) ''hits''
       [(''route'', ''/b'')] =
     (Some (new_collector CounterVec 0 ''hits'' [(''route'', ''/a'')]),
      newMetricsBinding\<lparr>userCounters := (userCounters newMetricsBinding)
        (''hits'' \<mapsto> new_collector CounterVec 0 ''hits'' [(''route'', ''/a'')])\<rparr>,
      ([] @ new_collector CounterVec 0 ''hits'' [(''route'', ''/a'')] # [], Suc 1)) \<and>
   set (map fst [(''method'', ''GET'')]) \<noteq> set (map fst [(''route'', ''/a'')]) \<and>
   getOrCreateCounter (prometheus_Register accept_all) newMetricsBinding
       ([] @ new_collector CounterVec 0 ''hits'' [(''route'', ''/a'')] # [], 1) ''hits''
       [(''method'', ''GET'')] =
     (None, newMetricsBinding,
      ([] @ new_collector CounterVec 0 ''hits'' [(''route'', ''/a'')] # [], Suc 1)) \<and>
   declared ''hits'' = Some \<lparr>col = hits_by_route, registered = True\<rparr> \<and>
   getCollector Map.empty (Some declared) ''hits'' =
     ((Some (col \<lparr>col = hits_by_route, registered = True\<rparr>), True),
      [''hits'' \<mapsto> col \<lparr>col = hits_by_route, registered = True\<rparr>]) \<and>
   getCollector [''hits'' \<mapsto> col \<lparr>col = hits_by_route, registered = True\<rparr>] None ''hits'' =
     ((Some (col \<lparr>col = hits_by_route, registered = True\<rparr>), True),
      [''hits'' \<mapsto> col \<lparr>col = hits_by_route, registered = True\<rparr>]) \<and>
   declared ''misses'' = None \<and>
   getCollector Map.empty (Some declared) ''misses'' = ((None, False), Map.empty) \<and>
   getCollector Map.empty None ''misses'' = ((None, False), Map.empty)"
proof -
  have unknown: "find (\<lambda>x. col_fqName x = BuildFQName ''hits'') [] = None"
    by simp
  have miss: "userCounters newMetricsBinding ''hits'' = None"
    by (simp add: newMetricsBinding_def)
  have ok0: "accept_all (new_collector CounterVec 0 ''hits'' [(''route'', ''/a'')])"
    and ok1: "accept_all (new_collector CounterVec 1 ''hits'' [(''route'', ''/b'')])"
    by (simp_all add: accept_all_def)
  have named: "new_collector CounterVec 0 ''hits'' [(''route'', ''/a'')] = hits_by_route"
    by (simp add: new_collector_def BuildFQName_def hits_by_route_def)
  have same: "set (map fst [(''route'', ''/b'')]) = set (map fst [(''route'', ''/a'')])"
    by simp
  have other: "set (map fst [(''method'', ''GET'')]) \<noteq> set (map fst [(''route'', ''/a'')])"
    by simp
  have found: "declared ''hits'' = Some \<lparr>col = hits_by_route, registered = True\<rparr>"
    by (simp add: declared_def)
  have undeclared: "declared ''misses'' = None"
    by (simp add: declared_def)
  have absent: "Map.empty ''hits'' = (None :: collector option)"
    "Map.empty ''misses'' = (None :: collector option)"
    by simp_all
  note hits = getOrCreateCounter_first_register_wins [where name = "''hits''" and reg = "[]" and ?m1.0 = newMetricsBinding
      and valid = accept_all and ?fresh1.0 = 0 and ?labels1.0 = "[(''route'', ''/a'')]"
      and w = "([hits_by_route], 1)" and any_labels = "[(''method'', ''GET'')]"
      and ?m2.0 = newMetricsBinding and ?fresh2.0 = 1 and same_labels = "[(''route'', ''/b'')]"
      and other_labels = "[(''method'', ''GET'')]" and later = "[]" and collectors = declared
      and wrapped = "\<lparr>col = hits_by_route, registered = True\<rparr>" and ?cache1.0 = Map.empty
      and ?cache2.0 = Map.empty and metricsPlugin = None]
  note registry = hits [THEN conjunct1, rule_format, OF unknown miss ok0]
  note first = registry [THEN conjunct1]
  note cached = registry [THEN conjunct2, THEN conjunct1]
  note again = registry [THEN conjunct2, THEN conjunct2, THEN conjunct1, rule_format,
      OF miss ok1 same]
  note refused = registry [THEN conjunct2, THEN conjunct2, THEN conjunct2, rule_format,
      OF miss other]
  note lookups = hits [THEN conjunct2, THEN conjunct1, rule_format, OF found absent(1) absent(1)]
  note cold = lookups [THEN conjunct1]
  note warm = lookups [THEN conjunct2, THEN conjunct2]
  note misses = getOrCreateCounter_first_register_wins [where name = "''misses''" and collectors = declared
      and ?cache1.0 = Map.empty, THEN conjunct2, THEN conjunct2, rule_format,
      OF absent(2) undeclared]
  show ?thesis
    by (intro conjI unknown miss ok0 named first cached ok1 same again other refused found
        cold warm undeclared misses [THEN conjunct1] misses [THEN conjunct2])
qed

end
